theory Spec2Isabelle
  imports Complex_Main "HOL-Library.Word"
begin

unbundle bit_operations_syntax

chapter \<open>SentinelPay: risk scoring engine and hash-chained ledger\<close>

text \<open>
  A shallow embedding of the TypeScript sources of SentinelPay: the synchronous SHA-256 of
  \<^verbatim>\<open>crypto.ts\<close>, the risk engine \<^verbatim>\<open>SentinelEngine\<close> (the revision with
  reason codes, coordinated-attack detection and progressive escalation) and the ledger
  \<^verbatim>\<open>ImmutableLedger\<close> (the revision with \<^verbatim>\<open>verifyAndAdd\<close>).

  Conventions of the embedding.
  \<^item> A JavaScript \<^verbatim>\<open>number\<close> that holds a count, a score, an index or a timestamp in
    milliseconds is an \<open>int\<close> or a \<open>nat\<close>; an amount of money, a multiplier or a
    measured duration is an exact rational (\<open>rat\<close>); a coordinate is a \<open>real\<close>.
    Rounding of IEEE doubles, \<^verbatim>\<open>NaN\<close> and the infinities are outside the model.
  \<^item> A JavaScript string is a \<open>string\<close>, a list of 8-bit characters.
  \<^item> Mutable object state is passed explicitly: a method takes the state of its object
    and returns the new one together with its result.
  \<^item> The clocks \<^verbatim>\<open>Date.now()\<close> and \<^verbatim>\<open>performance.now()\<close> are inputs: the caller
    of a method passes the value that the clock would have returned.
\<close>

section \<open>crypto.ts: synchronous SHA-256\<close>

text \<open>
  The bit operators of JavaScript convert their operands to 32-bit integers; sums are
  sums of doubles, which are exact on the integers that occur here. The model keeps every
  intermediate value as an \<open>int\<close> and converts where the source's operators do.
\<close>

definition maxWord :: int where
  "maxWord = 4294967296"

text \<open>\<^verbatim>\<open>ToInt32\<close> and \<^verbatim>\<open>ToUint32\<close> of ECMAScript.\<close>

definition toInt32 :: "int \<Rightarrow> int" where
  "toInt32 x = (let m = x mod maxWord in if 2147483648 \<le> m then m - maxWord else m)"

definition toUint32 :: "int \<Rightarrow> int" where
  "toUint32 x = x mod maxWord"

text \<open>The operators \<^verbatim>\<open><<\<close>, \<^verbatim>\<open>>>\<close>, \<^verbatim>\<open>>>>\<close>, \<^verbatim>\<open>|\<close>, \<^verbatim>\<open>&\<close>, \<^verbatim>\<open>^\<close>, \<^verbatim>\<open>~\<close>; a shift
  count is taken modulo 32.\<close>

definition shl :: "int \<Rightarrow> int \<Rightarrow> int" where
  "shl x n = toInt32 (toInt32 x * 2 ^ nat (n mod 32))"

definition shr :: "int \<Rightarrow> int \<Rightarrow> int" where
  "shr x n = toInt32 x div 2 ^ nat (n mod 32)"

definition ushr :: "int \<Rightarrow> int \<Rightarrow> int" where
  "ushr x n = toUint32 x div 2 ^ nat (n mod 32)"

definition bor :: "int \<Rightarrow> int \<Rightarrow> int" where
  "bor x y = toInt32 x OR toInt32 y"

definition band :: "int \<Rightarrow> int \<Rightarrow> int" where
  "band x y = toInt32 x AND toInt32 y"

definition bxor :: "int \<Rightarrow> int \<Rightarrow> int" where
  "bxor x y = toInt32 x XOR toInt32 y"

definition bnot :: "int \<Rightarrow> int" where
  "bnot x = NOT (toInt32 x)"

text \<open>The remainder operator \<^verbatim>\<open>%\<close>, whose result has the sign of the dividend.\<close>

definition rem :: "int \<Rightarrow> int \<Rightarrow> int" where
  "rem a b = sgn a * (\<bar>a\<bar> mod \<bar>b\<bar>)"

definition rightRotate :: "int \<Rightarrow> int \<Rightarrow> int" where
  "rightRotate v amount = bor (ushr v amount) (shl v (32 - amount))"

text \<open>
  The tables \<^verbatim>\<open>sha256.h\<close> and \<^verbatim>\<open>sha256.k\<close>. The source fills them on the first call
  with \<^verbatim>\<open>(Math.pow(p, 0.5) * maxWord) | 0\<close> and \<^verbatim>\<open>(Math.pow(p, 1 / 3) * maxWord) | 0\<close> for
  the first 64 primes \<open>p\<close>, found by a sieve, and reuses them afterwards. These are
  the first 32 bits of the fractional parts of the square and cube roots, held as signed
  32-bit integers; the model gives them as literals. Only the first eight entries of
  \<^verbatim>\<open>sha256.h\<close> are ever read.
\<close>

definition sha256_h :: "int list" where
  "sha256_h =
    [
     1779033703, - 1150833019, 1013904242, - 1521486534, 1359893119, - 1694144372,
     528734635, 1541459225]"

definition sha256_k :: "int list" where
  "sha256_k = [
     1116352408, 1899447441, - 1245643825, - 373957723, 961987163, 1508970993,
     - 1841331548, - 1424204075, - 670586216, 310598401, 607225278, 1426881987,
     1925078388, - 2132889090, - 1680079193, - 1046744716, - 459576895, - 272742522,
     264347078, 604807628, 770255983, 1249150122, 1555081692, 1996064986,
     - 1740746414, - 1473132947, - 1341970488, - 1084653625, - 958395405, - 710438585,
     113926993, 338241895, 666307205, 773529912, 1294757372, 1396182291,
     1695183700, 1986661051, - 2117940946, - 1838011259, - 1564481375, - 1474664885,
     - 1035236496, - 949202525, - 778901479, - 694614492, - 200395387, 275423344,
     430227734, 506948616, 659060556, 883997877, 958139571, 1322822218,
     1537002063, 1747873779, 1955562222, 2024104815, - 2067236844, - 1933114872,
     - 1866530822, - 1538233109, - 1090935817, - 965641998]"

text \<open>
  One iteration of the inner loop \<^verbatim>\<open>for (i = 0; i < 64; i++)\<close>, on the pair of the
  message schedule \<open>w\<close> and the working hash. The assignment \<^verbatim>\<open>w[i] = ...\<close> leaves
  \<open>w\<close> as it is for \<open>i < 16\<close> and appends to it afterwards. The working hash grows
  by one entry each time (\<^verbatim>\<open>[..].concat(hash)\<close>); only its first eight entries are read.
\<close>

definition round_step :: "nat \<Rightarrow> int list \<times> int list \<Rightarrow> int list \<times> int list" where
  "round_step i wh =
    (let w = fst wh; hash = snd wh;
         a = hash ! 0; e = hash ! 4;
         wi = (if i < 16 then w ! i
               else (let w15 = w ! (i - 15); w2 = w ! (i - 2) in
                  bor (w ! (i - 16)
                       + bxor (bxor (rightRotate w15 7) (rightRotate w15 18)) (ushr w15 3)
                       + w ! (i - 7)
                       + bxor (bxor (rightRotate w2 17) (rightRotate w2 19)) (ushr w2 10)) 0));
         w' = (if i < 16 then w else w @ [wi]);
         temp1 = hash ! 7
                 + bxor (bxor (rightRotate e 6) (rightRotate e 11)) (rightRotate e 25)
                 + bxor (band e (hash ! 5)) (band (bnot e) (hash ! 6))
                 + sha256_k ! i
                 + wi;
         temp2 = bxor (bxor (rightRotate a 2) (rightRotate a 13)) (rightRotate a 22)
                 + bxor (bxor (band a (hash ! 1)) (band a (hash ! 2))) (band (hash ! 1) (hash ! 2));
         hash1 = bor (temp1 + temp2) 0 # hash;
         hash2 = hash1[4 := bor (hash1 ! 4 + temp1) 0]
     in (w', hash2))"

function rounds :: "nat \<Rightarrow> int list \<times> int list \<Rightarrow> int list \<times> int list" where
  "rounds i wh = (if i < 64 then rounds (i + 1) (round_step i wh) else wh)"
  by pat_completeness auto
termination
  by (relation "measure (\<lambda>(i, wh). 64 - i)") auto

declare rounds.simps [simp del]

text \<open>The loop \<^verbatim>\<open>for (i = 0; i < 8; i++) hash[i] = (hash[i] + oldHash[i]) | 0\<close>.\<close>

function add_old :: "nat \<Rightarrow> int list \<Rightarrow> int list \<Rightarrow> int list" where
  "add_old i hash oldHash =
     (if i < 8 then add_old (i + 1) (hash[i := bor (hash ! i + oldHash ! i) 0]) oldHash else hash)"
  by pat_completeness auto
termination
  by (relation "measure (\<lambda>(i, h, oh). 8 - i)") auto

declare add_old.simps [simp del]

definition block :: "int list \<Rightarrow> int list \<Rightarrow> int list" where
  "block w oldHash = add_old 0 (snd (rounds 0 (w, take 8 oldHash))) oldHash"

text \<open>The outer loop \<^verbatim>\<open>for (j = 0; j < words.length;)\<close> with
  \<^verbatim>\<open>w = words.slice(j, (j += 16))\<close>.\<close>

function blocks :: "int list \<Rightarrow> nat \<Rightarrow> int list \<Rightarrow> int list" where
  "blocks words j hash =
     (if j < length words then blocks words (j + 16) (block (take 16 (drop j words)) hash) else hash)"
  by pat_completeness auto
termination
  by (relation "measure (\<lambda>(words, j, hash). length words - j)") auto

declare blocks.simps [simp del]

text \<open>The padding loop \<^verbatim>\<open>while ((ascii.length % 64) - 56) ascii += '\x00'\<close>, on the list
  of the string's code units.\<close>

function pad_zero :: "nat list \<Rightarrow> nat list" where
  "pad_zero s = (if length s mod 64 \<noteq> 56 then pad_zero (s @ [0]) else s)"
  by pat_completeness auto
termination
proof (relation "measure (\<lambda>s. let m = length s mod 64 in if m \<le> 56 then 56 - m else 120 - m)")
  fix s :: "nat list"
  assume a: "length s mod 64 \<noteq> 56"
  have m: "length s mod 64 < 64" by simp
  show "(s @ [0], s) \<in> measure (\<lambda>s. let m = length s mod 64 in if m \<le> 56 then 56 - m else 120 - m)"
    using a m by (auto simp: mod_Suc Let_def)
qed simp

declare pad_zero.simps [simp del]

text \<open>\<^verbatim>\<open>words[k] |= v\<close>: an entry that does not exist yet reads as \<^verbatim>\<open>undefined\<close>, which
  \<^verbatim>\<open>|\<close> converts to 0, and the assignment appends it.\<close>

definition or_assign :: "int list \<Rightarrow> nat \<Rightarrow> int \<Rightarrow> int list" where
  "or_assign words k v =
     (if k < length words then words[k := bor (words ! k) v] else words @ [bor 0 v])"

text \<open>The loop that packs the code units into big-endian words. It leaves the function
  (\<^verbatim>\<open>return\<close> without a value, here \<open>None\<close>) at a code unit above 255.\<close>

function pack :: "nat \<Rightarrow> nat list \<Rightarrow> int list \<Rightarrow> int list option" where
  "pack i ascii words =
     (if i < length ascii then
        (let j = int (ascii ! i) in
         if shr j 8 \<noteq> 0 then None
         else pack (i + 1) ascii (or_assign words (i div 4) (shl j (rem (3 - int i) 4 * 8))))
      else Some words)"
  by pat_completeness auto
termination
  by (relation "measure (\<lambda>(i, ascii, words). length ascii - i)") auto

declare pack.simps [simp del]

definition hexdigit :: "int \<Rightarrow> char" where
  "hexdigit n = ''0123456789abcdef'' ! nat n"

text \<open>\<^verbatim>\<open>b.toString(16)\<close> for a byte \<open>b\<close>, and the source's
  \<^verbatim>\<open>(b < 16 ? 0 : '') + b.toString(16)\<close>.\<close>

definition toString16 :: "int \<Rightarrow> string" where
  "toString16 b = (if b < 16 then [hexdigit b] else [hexdigit (b div 16), hexdigit (b mod 16)])"

definition hexbyte :: "int \<Rightarrow> string" where
  "hexbyte b = (if b < 16 then ''0'' else '''') @ toString16 b"

definition hexword :: "int \<Rightarrow> string" where
  "hexword h = hexbyte (band (shr h 24) 255) @ hexbyte (band (shr h 16) 255)
             @ hexbyte (band (shr h 8) 255) @ hexbyte (band (shr h 0) 255)"

definition sha256 :: "nat list \<Rightarrow> string option" where
  "sha256 ascii =
    (let asciiBitLength = int (length ascii) * 8;
         padded = pad_zero (ascii @ [128])
     in case pack 0 padded [] of
          None \<Rightarrow> None
        | Some words0 \<Rightarrow>
           (let words1 = words0 @ [bor (asciiBitLength div maxWord) 0];
                words = words1 @ [asciiBitLength];
                hash = blocks words 0 sha256_h
            in Some (concat (map hexword (take 8 hash)))))"

text \<open>\<^verbatim>\<open>SHA256(data) || ''\<close>, as every caller writes it: \<^verbatim>\<open>undefined\<close> and the empty
  string give the empty string.\<close>

definition SHA256_or_empty :: "string \<Rightarrow> string" where
  "SHA256_or_empty data =
     (case sha256 (map of_char data) of None \<Rightarrow> '''' | Some h \<Rightarrow> (if h = '''' then '''' else h))"

section \<open>SentinelEngine.ts: types\<close>

datatype NetworkType = WIFI | NET_4G | NET_5G | VPN | UNKNOWN

datatype KycStatus = VERIFIED | PENDING | FAILED

datatype RiskCategory = LOW | MEDIUM | HIGH

datatype AccountStatus = ACTIVE | DORMANT | BLOCKED

datatype Decision = APPROVE | STEP_UP | BLOCK

datatype ReasonCode =
    ERR_VELOCITY_LIMIT
  | ERR_GEO_IMPOSSIBLE
  | ERR_BEHAVIORAL_SHIFT
  | ERR_COORDINATED_ATTACK
  | ERR_ESCALATION_OVERRIDE
  | ERR_CHAIN_MISMATCH
  | ERR_BLOCKED_USER
  | OK

record Location =
  lat :: real
  lon :: real
  city :: string

text \<open>The optional field \<^verbatim>\<open>merchant_category?\<close> is an \<open>option\<close>.\<close>

record Transaction =
  transaction_id :: string
  user_id :: string
  amount :: rat
  timestamp :: int
  device_id :: string
  ip_address :: string
  location :: Location
  merchant_id :: string
  merchant_category :: "string option"
  network_type :: NetworkType
  session_id :: string

record UserProfile =
  user_id :: string
  registered_city :: string
  registered_device_id :: string
  avg_transaction_amount :: rat
  max_transaction_amount :: rat
  daily_transaction_limit :: rat
  avg_transactions_per_day :: rat
  kyc_status :: KycStatus
  risk_category :: RiskCategory
  account_status :: AccountStatus
  usual_login_times :: "int \<times> int"
  last_login :: int
  failed_attempts_last_10_min :: int

record RiskResult =
  score :: int
  reasoning :: "string list"
  multiplier :: "rat option"

record ComponentScores =
  geo_risk :: int
  velocity_risk :: int
  device_risk :: int
  amount_risk :: int
  network_risk :: int
  behavioral_risk :: int

record FinalRiskResult =
  transaction_id :: string
  user_id :: string
  amount :: rat
  timestamp :: int
  final_risk_score :: int
  component_scores :: ComponentScores
  decision :: Decision
  reasoning :: "string list"
  reason_code :: ReasonCode
  processing_time_ms :: rat
  latency_breach :: bool
  coordinated_attack :: bool
  escalation_override :: bool

record LedgerEntry =
  index :: nat
  transaction_id :: string
  timestamp :: int
  final_risk_score :: int
  decision :: string
  previous_hash :: string
  current_hash :: string
  data_hash :: string

text \<open>The string that a value of the union type \<^verbatim>\<open>'APPROVE' | 'STEP_UP' | 'BLOCK'\<close> is.\<close>

fun Decision_string :: "Decision \<Rightarrow> string" where
  "Decision_string APPROVE = ''APPROVE''"
| "Decision_string STEP_UP = ''STEP_UP''"
| "Decision_string BLOCK = ''BLOCK''"

fun ReasonCode_string :: "ReasonCode \<Rightarrow> string" where
  "ReasonCode_string ERR_VELOCITY_LIMIT = ''ERR_VELOCITY_LIMIT''"
| "ReasonCode_string ERR_GEO_IMPOSSIBLE = ''ERR_GEO_IMPOSSIBLE''"
| "ReasonCode_string ERR_BEHAVIORAL_SHIFT = ''ERR_BEHAVIORAL_SHIFT''"
| "ReasonCode_string ERR_COORDINATED_ATTACK = ''ERR_COORDINATED_ATTACK''"
| "ReasonCode_string ERR_ESCALATION_OVERRIDE = ''ERR_ESCALATION_OVERRIDE''"
| "ReasonCode_string ERR_CHAIN_MISMATCH = ''ERR_CHAIN_MISMATCH''"
| "ReasonCode_string ERR_BLOCKED_USER = ''ERR_BLOCKED_USER''"
| "ReasonCode_string OK = ''OK''"

section \<open>SentinelEngine.ts: constants\<close>

definition R_EARTH_KM :: real where "R_EARTH_KM = 6371"
definition MAX_SPEED_KMH :: real where "MAX_SPEED_KMH = 800"

definition THRESHOLD_PASS :: int where "THRESHOLD_PASS = 40"
definition THRESHOLD_BLOCK :: int where "THRESHOLD_BLOCK = 70"

definition MAX_LATENCY_MS :: rat where "MAX_LATENCY_MS = 200"
definition LATENCY_WINDOW :: nat where "LATENCY_WINDOW = 10"

definition COORD_WINDOW_MS :: int where "COORD_WINDOW_MS = 2 * 60 * 1000"
definition COORD_MIN_USERS :: nat where "COORD_MIN_USERS = 5"
definition COORD_AMOUNT_VARIANCE :: rat where "COORD_AMOUNT_VARIANCE = 5 / 100"
definition COORD_MULTIPLIER :: rat where "COORD_MULTIPLIER = 125 / 100"

definition ESC_WINDOW_MS :: int where "ESC_WINDOW_MS = 15 * 60 * 1000"
definition ESC_MIN_STEPUPS :: nat where "ESC_MIN_STEPUPS = 3"
definition ESC_RISK_THRESH :: int where "ESC_RISK_THRESH = 60"

section \<open>SentinelEngine.ts: helpers\<close>

text \<open>\<^verbatim>\<open>Math.atan2\<close> on the reals.\<close>

definition atan2 :: "real \<Rightarrow> real \<Rightarrow> real" where
  "atan2 y x =
     (if 0 < x then arctan (y / x)
      else if x < 0 \<and> 0 \<le> y then arctan (y / x) + pi
      else if x < 0 then arctan (y / x) - pi
      else if 0 < y then pi / 2
      else if y < 0 then - (pi / 2)
      else 0)"

definition haversine :: "real \<Rightarrow> real \<Rightarrow> real \<Rightarrow> real \<Rightarrow> real" where
  "haversine lat1 lon1 lat2 lon2 =
     (let dLat = (lat2 - lat1) * (pi / 180);
          dLon = (lon2 - lon1) * (pi / 180);
          a = (sin (dLat / 2))\<^sup>2
              + cos (lat1 * (pi / 180)) * cos (lat2 * (pi / 180)) * (sin (dLon / 2))\<^sup>2
      in R_EARTH_KM * 2 * atan2 (sqrt a) (sqrt (1 - a)))"

text \<open>\<^verbatim>\<open>clamp(v, min = 0, max = 100)\<close>; a call that leaves the defaults out is written
  with them.\<close>

definition clamp :: "int \<Rightarrow> int \<Rightarrow> int \<Rightarrow> int" where
  "clamp v mn mx = min mx (max mn v)"

text \<open>\<^verbatim>\<open>r.startsWith(code)\<close>.\<close>

definition startsWith :: "string \<Rightarrow> string \<Rightarrow> bool" where
  "startsWith r code = (take (length code) r = code)"

text \<open>\<^verbatim>\<open>xs.slice(-n)\<close>: the last \<open>n\<close> elements.\<close>

definition slice_last :: "nat \<Rightarrow> 'a list \<Rightarrow> 'a list" where
  "slice_last n xs = drop (length xs - n) xs"

text \<open>\<^verbatim>\<open>new Date(ts).getHours()\<close>, with the host's time zone taken to be UTC.\<close>

definition getHours :: "int \<Rightarrow> int" where
  "getHours ts = (ts div 3600000) mod 24"

section \<open>Rolling latency buffer\<close>

definition RollingLatencyBuffer_record :: "rat list \<Rightarrow> rat \<Rightarrow> rat list" where
  "RollingLatencyBuffer_record buffer ms =
     (let buffer1 = buffer @ [ms]
      in if length buffer1 > LATENCY_WINDOW then tl buffer1 else buffer1)"

definition RollingLatencyBuffer_average :: "rat list \<Rightarrow> rat" where
  "RollingLatencyBuffer_average buffer =
     (if length buffer = 0 then 0 else foldl (+) 0 buffer / of_nat (length buffer))"

definition RollingLatencyBuffer_isBreach :: "rat list \<Rightarrow> bool" where
  "RollingLatencyBuffer_isBreach buffer = (RollingLatencyBuffer_average buffer > MAX_LATENCY_MS)"

section \<open>Coordinated attack detector\<close>

record CoordEvent =
  user_id :: string
  merchant_category :: string
  amount :: rat
  timestamp :: int

text \<open>\<^verbatim>\<open>tx.merchant_category ?? tx.merchant_id\<close>.\<close>

definition category_of :: "Transaction \<Rightarrow> string" where
  "category_of tx =
     (case Transaction.merchant_category tx of None \<Rightarrow> merchant_id tx | Some c \<Rightarrow> c)"

text \<open>The state of the detector is its field \<^verbatim>\<open>events\<close>.\<close>

definition CoordinatedAttackDetector_record :: "CoordEvent list \<Rightarrow> Transaction \<Rightarrow> CoordEvent list" where
  "CoordinatedAttackDetector_record events tx =
     (let now = Transaction.timestamp tx;
          events1 = filter (\<lambda>e. now - CoordEvent.timestamp e \<le> COORD_WINDOW_MS) events;
          events2 = events1 @ [\<lparr> CoordEvent.user_id = Transaction.user_id tx,
                                 CoordEvent.merchant_category = category_of tx,
                                 CoordEvent.amount = Transaction.amount tx,
                                 CoordEvent.timestamp = now \<rparr>]
      in if length events2 > 5000 then slice_last 5000 events2 else events2)"

text \<open>The size of \<^verbatim>\<open>new Set(cluster.map(e => e.user_id))\<close> is the number of distinct
  user ids of the cluster.\<close>

definition CoordinatedAttackDetector_detect :: "CoordEvent list \<Rightarrow> Transaction \<Rightarrow> bool" where
  "CoordinatedAttackDetector_detect events tx =
     (let now = Transaction.timestamp tx;
          cat = category_of tx;
          window = filter (\<lambda>e. now - CoordEvent.timestamp e \<le> COORD_WINDOW_MS) events;
          amtLow = Transaction.amount tx * (1 - COORD_AMOUNT_VARIANCE);
          amtHigh = Transaction.amount tx * (1 + COORD_AMOUNT_VARIANCE);
          cluster = filter (\<lambda>e. CoordEvent.merchant_category e = cat
                                \<and> CoordEvent.amount e \<ge> amtLow \<and> CoordEvent.amount e \<le> amtHigh) window
      in length (remdups (map CoordEvent.user_id cluster)) \<ge> COORD_MIN_USERS)"

section \<open>Progressive escalation tracker\<close>

record EscalationState =
  stepUpTimestamps :: "int list"

text \<open>The state of the tracker is its field \<^verbatim>\<open>state\<close>, a \<^verbatim>\<open>Map\<close> from user ids.
  \<^verbatim>\<open>get\<close> inserts an empty entry for a user it has not seen.\<close>

type_synonym EscalationTracker = "string \<rightharpoonup> EscalationState"

definition EscalationTracker_get :: "EscalationTracker \<Rightarrow> string \<Rightarrow> EscalationState \<times> EscalationTracker" where
  "EscalationTracker_get state userId =
     (case state userId of
        None \<Rightarrow> (\<lparr> stepUpTimestamps = [] \<rparr>, state(userId \<mapsto> \<lparr> stepUpTimestamps = [] \<rparr>))
      | Some s \<Rightarrow> (s, state))"

definition EscalationTracker_recordStepUp :: "EscalationTracker \<Rightarrow> string \<Rightarrow> int \<Rightarrow> EscalationTracker" where
  "EscalationTracker_recordStepUp state userId ts =
     (let (s, state1) = EscalationTracker_get state userId;
          cutoff = ts - ESC_WINDOW_MS;
          s1 = s \<lparr> stepUpTimestamps := filter (\<lambda>t. t > cutoff) (stepUpTimestamps s) \<rparr>;
          s2 = s1 \<lparr> stepUpTimestamps := stepUpTimestamps s1 @ [ts] \<rparr>
      in state1(userId \<mapsto> s2))"

definition EscalationTracker_recordBlock :: "EscalationTracker \<Rightarrow> string \<Rightarrow> EscalationTracker" where
  "EscalationTracker_recordBlock state userId =
     (let (s, state1) = EscalationTracker_get state userId
      in state1(userId \<mapsto> s \<lparr> stepUpTimestamps := [] \<rparr>))"

definition EscalationTracker_shouldForceBlock ::
    "EscalationTracker \<Rightarrow> string \<Rightarrow> int \<Rightarrow> int \<Rightarrow> bool \<times> EscalationTracker" where
  "EscalationTracker_shouldForceBlock state userId currentScore ts =
     (let (s, state1) = EscalationTracker_get state userId;
          cutoff = ts - ESC_WINDOW_MS;
          recent = length (filter (\<lambda>t. t > cutoff) (stepUpTimestamps s))
      in (recent \<ge> ESC_MIN_STEPUPS \<and> currentScore \<ge> ESC_RISK_THRESH, state1))"

section \<open>Risk engines\<close>

text \<open>
  Each engine adds to a local \<^verbatim>\<open>score\<close> and pushes to a local \<^verbatim>\<open>reasons\<close>; the model
  threads the pair through the source's \<^verbatim>\<open>if\<close> statements in their order. A reason starts
  with its reason code, as in the source; the text after the colon is shortened to plain
  ASCII and the numbers that the source formats into it are left out.
\<close>

definition GeoRiskEngine_evaluate :: "Transaction \<Rightarrow> UserProfile \<Rightarrow> Transaction option \<Rightarrow> RiskResult" where
  "GeoRiskEngine_evaluate tx profile lastTx =
     (let sr0 = (0, []);
          sr1 = (if city (location tx) \<noteq> registered_city profile
                 then (fst sr0 + 10, snd sr0 @ [''ERR_GEO_IMPOSSIBLE: Location mismatch - ''
                         @ city (location tx) @ '' vs '' @ registered_city profile])
                 else sr0);
          sr2 = (case lastTx of
                   None \<Rightarrow> sr1
                 | Some l \<Rightarrow>
                    (let dist = haversine (lat (location l)) (lon (location l))
                                          (lat (location tx)) (lon (location tx));
                         diffHrs = real_of_int (Transaction.timestamp tx - Transaction.timestamp l) / 3600000
                     in if diffHrs > 0 \<and> dist / diffHrs > MAX_SPEED_KMH
                        then (fst sr1 + 55, snd sr1 @ [''ERR_GEO_IMPOSSIBLE: Impossible travel''])
                        else sr1))
      in \<lparr> RiskResult.score = clamp (fst sr2) 0 65, RiskResult.reasoning = snd sr2,
           RiskResult.multiplier = None \<rparr>)"

definition VelocityRiskEngine_evaluate :: "Transaction \<Rightarrow> Transaction list \<Rightarrow> UserProfile \<Rightarrow> RiskResult" where
  "VelocityRiskEngine_evaluate tx recentTxns profile =
     (let sr0 = (0, []);
          tenMinsAgo = Transaction.timestamp tx - 600000;
          recentCount = length (filter (\<lambda>t. Transaction.timestamp t > tenMinsAgo) recentTxns);
          sr1 = (if recentCount > 5
                 then (fst sr0 + 30, snd sr0 @ [''ERR_VELOCITY_LIMIT: transactions in last 10 min''])
                 else sr0);
          spamCount = length (filter (\<lambda>t. Transaction.timestamp t > tenMinsAgo
                                           \<and> Transaction.amount t = 1) recentTxns);
          sr2 = (if Transaction.amount tx = 1 \<and> spamCount > 3
                 then (fst sr1 + 30, snd sr1 @ [''ERR_VELOCITY_LIMIT: 1 rupee spam burst detected''])
                 else sr1);
          sr3 = (if failed_attempts_last_10_min profile > 3
                 then (fst sr2 + 35, snd sr2 @ [''ERR_VELOCITY_LIMIT: failed attempts in 10 min''])
                 else sr2)
      in \<lparr> RiskResult.score = clamp (fst sr3) 0 65, RiskResult.reasoning = snd sr3,
           RiskResult.multiplier = None \<rparr>)"

definition DeviceRiskEngine_evaluate :: "Transaction \<Rightarrow> UserProfile \<Rightarrow> nat \<Rightarrow> RiskResult" where
  "DeviceRiskEngine_evaluate tx profile distinctDevicesLast5Min =
     (let sr0 = (0, []);
          sr1 = (if device_id tx \<noteq> registered_device_id profile
                 then (fst sr0 + 25, snd sr0 @ [''ERR_BEHAVIORAL_SHIFT: Unregistered device - '' @ device_id tx])
                 else sr0);
          sr2 = (if distinctDevicesLast5Min > 1
                 then (fst sr1 + 30, snd sr1 @ [''ERR_BEHAVIORAL_SHIFT: Device switching in 5 min''])
                 else sr1)
      in \<lparr> RiskResult.score = clamp (fst sr2) 0 55, RiskResult.reasoning = snd sr2,
           RiskResult.multiplier = None \<rparr>)"

definition AmountRiskEngine_evaluate :: "Transaction \<Rightarrow> UserProfile \<Rightarrow> RiskResult" where
  "AmountRiskEngine_evaluate tx profile =
     (let sr0 = (0, []);
          sr1 = (if Transaction.amount tx > max_transaction_amount profile
                 then (fst sr0 + 75, snd sr0 @ [''ERR_VELOCITY_LIMIT: Amount exceeds max''])
                 else if Transaction.amount tx > daily_transaction_limit profile
                 then (fst sr0 + 45, snd sr0 @ [''ERR_VELOCITY_LIMIT: Exceeds daily transaction limit''])
                 else if Transaction.amount tx > avg_transaction_amount profile * 3
                 then (fst sr0 + 20, snd sr0 @ [''ERR_BEHAVIORAL_SHIFT: Amount spike vs avg''])
                 else sr0)
      in \<lparr> RiskResult.score = clamp (fst sr1) 0 75, RiskResult.reasoning = snd sr1,
           RiskResult.multiplier = None \<rparr>)"

definition NetworkSessionRiskEngine_evaluate :: "Transaction \<Rightarrow> RiskResult" where
  "NetworkSessionRiskEngine_evaluate tx =
     (let sr0 = (0, []);
          sr1 = (if network_type tx = VPN
                 then (fst sr0 + 20, snd sr0 @ [''ERR_BEHAVIORAL_SHIFT: VPN detected''])
                 else sr0);
          sr2 = (if network_type tx = UNKNOWN
                 then (fst sr1 + 10, snd sr1 @ [''ERR_BEHAVIORAL_SHIFT: Unknown network type''])
                 else sr1)
      in \<lparr> RiskResult.score = clamp (fst sr2) 0 30, RiskResult.reasoning = snd sr2,
           RiskResult.multiplier = None \<rparr>)"

definition BehavioralRiskEngine_evaluate :: "Transaction \<Rightarrow> UserProfile \<Rightarrow> RiskResult" where
  "BehavioralRiskEngine_evaluate tx profile =
     (let sr0 = (0, []);
          multiplier0 = (1 :: rat);
          hour = getHours (Transaction.timestamp tx);
          sr1 = (if hour < fst (usual_login_times profile) \<or> hour > snd (usual_login_times profile)
                 then (fst sr0 + 10, snd sr0 @ [''ERR_BEHAVIORAL_SHIFT: Transaction at unusual hour''])
                 else sr0);
          sr2 = (if account_status profile = DORMANT
                 then (fst sr1 + 45, snd sr1 @ [''ERR_BEHAVIORAL_SHIFT: Dormant account activation''])
                 else sr1);
          sr3 = (if kyc_status profile = FAILED
                 then (fst sr2 + 35, snd sr2 @ [''ERR_BEHAVIORAL_SHIFT: KYC failed''])
                 else if kyc_status profile = PENDING
                 then (fst sr2 + 10, snd sr2 @ [''ERR_BEHAVIORAL_SHIFT: KYC pending''])
                 else sr2);
          mr = (if risk_category profile = HIGH
                then (12 / 10, snd sr3 @ [''High-risk user profile (1.2x multiplier)''])
                else if risk_category profile = MEDIUM
                then (11 / 10, snd sr3 @ [''Medium-risk user profile (1.1x multiplier)''])
                else (multiplier0, snd sr3))
      in \<lparr> RiskResult.score = clamp (fst sr3) 0 65, RiskResult.reasoning = snd mr,
           RiskResult.multiplier = Some (fst mr) \<rparr>)"

section \<open>Sentinel engine: main aggregator\<close>

text \<open>The mutable fields of the class; the six risk engines have no state.\<close>

record SentinelEngine =
  coordDetector :: "CoordEvent list"
  escalationTracker :: EscalationTracker
  latencyBuffer :: "rat list"
  transactionHistory :: "Transaction list"

definition SentinelEngine_new :: SentinelEngine where
  "SentinelEngine_new =
     \<lparr> coordDetector = [], escalationTracker = Map.empty, latencyBuffer = [],
       transactionHistory = [] \<rparr>"

definition SentinelEngine_primaryReasonCode :: "string list \<Rightarrow> ReasonCode" where
  "SentinelEngine_primaryReasonCode reasons =
     (let priority = [ERR_CHAIN_MISMATCH, ERR_ESCALATION_OVERRIDE, ERR_COORDINATED_ATTACK,
                      ERR_GEO_IMPOSSIBLE, ERR_VELOCITY_LIMIT, ERR_BEHAVIORAL_SHIFT]
      in case find (\<lambda>code. list_ex (\<lambda>r. startsWith r (ReasonCode_string code)) reasons) priority of
           Some code \<Rightarrow> code
         | None \<Rightarrow> OK)"

definition SentinelEngine_buildResult ::
    "SentinelEngine \<Rightarrow> Transaction \<Rightarrow> int \<Rightarrow> ComponentScores \<Rightarrow> Decision \<Rightarrow> string list
      \<Rightarrow> ReasonCode \<Rightarrow> rat \<Rightarrow> bool \<Rightarrow> bool \<Rightarrow> FinalRiskResult" where
  "SentinelEngine_buildResult this tx score' componentScores decision' reasons reasonCode ms
       coordinated escalation =
     \<lparr> FinalRiskResult.transaction_id = Transaction.transaction_id tx,
       FinalRiskResult.user_id = Transaction.user_id tx,
       FinalRiskResult.amount = Transaction.amount tx,
       FinalRiskResult.timestamp = Transaction.timestamp tx,
       FinalRiskResult.final_risk_score = score',
       component_scores = componentScores,
       FinalRiskResult.decision = decision',
       FinalRiskResult.reasoning = reasons,
       reason_code = reasonCode,
       processing_time_ms = ms,
       latency_breach = RollingLatencyBuffer_isBreach (latencyBuffer this),
       coordinated_attack = coordinated,
       escalation_override = escalation \<rparr>"

definition SentinelEngine_getHistory :: "SentinelEngine \<Rightarrow> string \<Rightarrow> Transaction list" where
  "SentinelEngine_getHistory this userId =
     filter (\<lambda>t. Transaction.user_id t = userId) (transactionHistory this)"

text \<open>The secondary check before a step-up. It only reads the engine, except that
  \<^verbatim>\<open>shouldForceBlock\<close> goes through \<^verbatim>\<open>get\<close>.\<close>

definition SentinelEngine_secondaryCheck ::
    "SentinelEngine \<Rightarrow> Transaction \<Rightarrow> UserProfile \<Rightarrow> bool \<times> SentinelEngine" where
  "SentinelEngine_secondaryCheck this tx profile =
     (let tenMinsAgo = Transaction.timestamp tx - 600000;
          fiveMinsAgo = Transaction.timestamp tx - 300000;
          userHistory = filter (\<lambda>t. Transaction.user_id t = Transaction.user_id tx) (transactionHistory this);
          recentCount = length (filter (\<lambda>t. Transaction.timestamp t > tenMinsAgo) userHistory);
          recentDevices = remdups (map device_id (filter (\<lambda>t. Transaction.timestamp t > fiveMinsAgo) userHistory)
                                   @ [device_id tx]);
          velocityFail = (recentCount > 8);
          deviceFail = (length recentDevices > 2);
          coordFail = CoordinatedAttackDetector_detect (coordDetector this) tx;
          (escalationFail, tracker1) =
             EscalationTracker_shouldForceBlock (escalationTracker this) (Transaction.user_id tx)
               THRESHOLD_BLOCK (Transaction.timestamp tx)
      in (\<not> (velocityFail \<or> deviceFail \<or> coordFail \<or> escalationFail),
          this \<lparr> escalationTracker := tracker1 \<rparr>))"

text \<open>
  The body of \<^verbatim>\<open>evaluate\<close> after the short-circuit for blocked accounts, in two parts
  so that the value of the local \<^verbatim>\<open>finalScore\<close> before the decision has a name. The
  first part runs from the gathering of the context to the reason of a coordinated attack;
  its result holds the locals \<^verbatim>\<open>componentScores\<close>, \<^verbatim>\<open>coordinated\<close>, \<^verbatim>\<open>finalScore\<close>
  and \<^verbatim>\<open>allReasons\<close>.
\<close>

record Scored =
  componentScores :: ComponentScores
  coordinated :: bool
  finalScore :: int
  allReasons :: "string list"

definition SentinelEngine_score ::
    "SentinelEngine \<Rightarrow> Transaction \<Rightarrow> UserProfile \<Rightarrow> Scored \<times> SentinelEngine" where
  "SentinelEngine_score this tx profile =
     (let userHistory = filter (\<lambda>t. Transaction.user_id t = Transaction.user_id tx) (transactionHistory this);
          lastTx = (if userHistory = [] then None else Some (last userHistory));
          fiveMinsAgo = Transaction.timestamp tx - 300000;
          recentDevices = remdups (map device_id (filter (\<lambda>t. Transaction.timestamp t > fiveMinsAgo) userHistory)
                                   @ [device_id tx]);
          geo = GeoRiskEngine_evaluate tx profile lastTx;
          velocity = VelocityRiskEngine_evaluate tx userHistory profile;
          device = DeviceRiskEngine_evaluate tx profile (length recentDevices);
          amount = AmountRiskEngine_evaluate tx profile;
          network = NetworkSessionRiskEngine_evaluate tx;
          behav = BehavioralRiskEngine_evaluate tx profile;
          scores = \<lparr> geo_risk = RiskResult.score geo, velocity_risk = RiskResult.score velocity,
                     device_risk = RiskResult.score device, amount_risk = RiskResult.score amount,
                     network_risk = RiskResult.score network, behavioral_risk = RiskResult.score behav \<rparr>;
          baseScore0 = RiskResult.score geo + RiskResult.score velocity + RiskResult.score device
                       + RiskResult.score amount + RiskResult.score network + RiskResult.score behav;
          baseScore1 = (case RiskResult.multiplier behav of
                          None \<Rightarrow> baseScore0
                        | Some m \<Rightarrow> if m \<noteq> 0 \<and> m > 1 then \<lfloor>of_int baseScore0 * m\<rfloor> else baseScore0);
          events1 = CoordinatedAttackDetector_record (coordDetector this) tx;
          detected = CoordinatedAttackDetector_detect events1 tx;
          baseScore2 = (if detected then \<lfloor>of_int baseScore1 * COORD_MULTIPLIER\<rfloor> else baseScore1);
          final = clamp baseScore2 0 100;
          reasons0 = RiskResult.reasoning geo @ RiskResult.reasoning velocity @ RiskResult.reasoning device
                     @ RiskResult.reasoning amount @ RiskResult.reasoning network @ RiskResult.reasoning behav;
          reasons1 = (if detected
                      then reasons0 @ [''ERR_COORDINATED_ATTACK: Coordinated cluster detected (1.25x amplifier)'']
                      else reasons0)
      in (\<lparr> componentScores = scores, coordinated = detected, finalScore = final,
            allReasons = reasons1 \<rparr>,
          this \<lparr> coordDetector := events1 \<rparr>))"

text \<open>
  The second part is the decision logic. Its result adds the locals \<^verbatim>\<open>decision\<close>,
  \<^verbatim>\<open>reasonCode\<close> and \<^verbatim>\<open>escalationOverride\<close>; \<^verbatim>\<open>finalScore\<close> and \<^verbatim>\<open>allReasons\<close> are
  the ones that the escalation override may have changed.
\<close>

record Decided = Scored +
  decision :: Decision
  reasonCode :: ReasonCode
  escalationOverride :: bool

definition SentinelEngine_decide ::
    "SentinelEngine \<Rightarrow> Transaction \<Rightarrow> UserProfile \<Rightarrow> Scored \<Rightarrow> Decided \<times> SentinelEngine" where
  "SentinelEngine_decide this tx profile sc =
     (let d0 = \<lparr> componentScores = componentScores sc, coordinated = coordinated sc,
                 finalScore = finalScore sc, allReasons = allReasons sc,
                 decision = APPROVE, reasonCode = OK, escalationOverride = False \<rparr>
      in if finalScore sc \<ge> THRESHOLD_BLOCK then
           (d0 \<lparr> decision := BLOCK,
                 reasonCode := (if coordinated sc then ERR_COORDINATED_ATTACK
                                else SentinelEngine_primaryReasonCode (allReasons sc)) \<rparr>,
            this)
         else if finalScore sc \<ge> THRESHOLD_PASS then
           (let (force, tracker1) =
                  EscalationTracker_shouldForceBlock (escalationTracker this) (Transaction.user_id tx)
                    (finalScore sc) (Transaction.timestamp tx);
                this1 = this \<lparr> escalationTracker := tracker1 \<rparr>
            in if force then
                 (d0 \<lparr> decision := BLOCK, reasonCode := ERR_ESCALATION_OVERRIDE,
                       escalationOverride := True,
                       finalScore := max (finalScore sc) 70,
                       allReasons := allReasons sc @
                         [''ERR_ESCALATION_OVERRIDE: >=3 OTP challenges in 15 min with risk >= 60 -> forced BLOCK''] \<rparr>,
                  this1)
               else
                 (let (otpAllowed, this2) = SentinelEngine_secondaryCheck this1 tx profile
                  in if otpAllowed then
                       (d0 \<lparr> decision := STEP_UP,
                             reasonCode := SentinelEngine_primaryReasonCode (allReasons sc) \<rparr>, this2)
                     else
                       (d0 \<lparr> decision := BLOCK,
                             reasonCode := SentinelEngine_primaryReasonCode (allReasons sc) \<rparr>, this2)))
         else (d0, this))"

text \<open>
  \<^verbatim>\<open>evaluate(tx, profile)\<close>. The argument \<open>ms\<close> is the duration that the two readings
  of \<^verbatim>\<open>performance.now()\<close> give. The result is the returned record and the engine after
  the call.
\<close>

definition SentinelEngine_evaluate ::
    "SentinelEngine \<Rightarrow> Transaction \<Rightarrow> UserProfile \<Rightarrow> rat \<Rightarrow> FinalRiskResult \<times> SentinelEngine" where
  "SentinelEngine_evaluate this tx profile ms =
     (if account_status profile = BLOCKED then
        (let this1 = this \<lparr> latencyBuffer := RollingLatencyBuffer_record (latencyBuffer this) ms \<rparr>
         in (SentinelEngine_buildResult this1 tx 100
               \<lparr> geo_risk = 0, velocity_risk = 0, device_risk = 0, amount_risk = 0,
                 network_risk = 0, behavioral_risk = 0 \<rparr>
               BLOCK [''ERR_BLOCKED_USER: Account is permanently blocked'']
               ERR_BLOCKED_USER ms False False,
             this1))
      else
        (let (sc, this1) = SentinelEngine_score this tx profile;
             (d, this2) = SentinelEngine_decide this1 tx profile sc;
             tracker3 = (if decision d = STEP_UP
                         then EscalationTracker_recordStepUp (escalationTracker this2)
                                (Transaction.user_id tx) (Transaction.timestamp tx)
                         else escalationTracker this2);
             tracker4 = (if decision d = BLOCK
                         then EscalationTracker_recordBlock tracker3 (Transaction.user_id tx)
                         else tracker3);
             history1 = transactionHistory this2 @ [tx];
             history2 = (if length history1 > 1000 then slice_last 1000 history1 else history1);
             this3 = this2 \<lparr> escalationTracker := tracker4, transactionHistory := history2,
                              latencyBuffer := RollingLatencyBuffer_record (latencyBuffer this2) ms \<rparr>
         in (SentinelEngine_buildResult this3 tx (finalScore d) (componentScores d) (decision d)
               (allReasons d) (reasonCode d) ms (coordinated d) (escalationOverride d),
             this3)))"

text \<open>A run of the engine: \<^verbatim>\<open>evaluate\<close> on each transaction in turn, with its profile
  and its measured duration; the results in order and the engine at the end.\<close>

fun SentinelEngine_run ::
    "SentinelEngine \<Rightarrow> (Transaction \<times> UserProfile \<times> rat) list \<Rightarrow> FinalRiskResult list \<times> SentinelEngine" where
  "SentinelEngine_run this [] = ([], this)"
| "SentinelEngine_run this ((tx, profile, ms) # rest) =
     (let (r, this1) = SentinelEngine_evaluate this tx profile ms;
          (rs, this2) = SentinelEngine_run this1 rest
      in (r # rs, this2))"

section \<open>ImmutableLedger.ts\<close>

text \<open>A number in a template literal: an index and a score print in decimal.\<close>

definition digit_char :: "nat \<Rightarrow> char" where
  "digit_char n = ''0123456789'' ! n"

fun show_nat :: "nat \<Rightarrow> string" where
  "show_nat n = (if n < 10 then [digit_char n] else show_nat (n div 10) @ [digit_char (n mod 10)])"

declare show_nat.simps [simp del]

definition show_int :: "int \<Rightarrow> string" where
  "show_int i = (if i < 0 then ''-'' @ show_nat (nat (- i)) else show_nat (nat i))"

definition calculateHash :: "nat \<Rightarrow> string \<Rightarrow> string \<Rightarrow> int \<Rightarrow> string" where
  "calculateHash idx prevHash txId score' =
     SHA256_or_empty (show_nat idx @ prevHash @ txId @ show_int score')"

text \<open>The state of the ledger is its field \<^verbatim>\<open>chain\<close>. The constructor pushes the genesis
  block; \<open>now\<close> is the reading of \<^verbatim>\<open>Date.now()\<close>.\<close>

definition ImmutableLedger_new :: "int \<Rightarrow> LedgerEntry list" where
  "ImmutableLedger_new now =
     [] @ [\<lparr> index = 0,
              LedgerEntry.transaction_id = ''00000000-0000-0000-0000-000000000000'',
              LedgerEntry.timestamp = now,
              LedgerEntry.final_risk_score = 0,
              LedgerEntry.decision = ''GENESIS'',
              previous_hash = ''0'',
              current_hash = calculateHash 0 ''0'' ''GENESIS'' 0,
              data_hash = ''0'' \<rparr>]"

text \<open>Reading a property of \<^verbatim>\<open>undefined\<close> throws.\<close>

datatype error = TypeError

text \<open>
  \<^verbatim>\<open>addEntry(result)\<close>. \<open>stringify\<close> stands for the host's \<^verbatim>\<open>JSON.stringify\<close> on a
  result, \<open>now\<close> for the reading of \<^verbatim>\<open>Date.now()\<close>. On an empty chain
  \<^verbatim>\<open>this.chain[this.chain.length - 1]\<close> is \<^verbatim>\<open>undefined\<close> and \<^verbatim>\<open>prev.current_hash\<close> throws.
\<close>

definition ImmutableLedger_addEntry ::
    "(FinalRiskResult \<Rightarrow> string) \<Rightarrow> int \<Rightarrow> LedgerEntry list \<Rightarrow> FinalRiskResult
      \<Rightarrow> error + (LedgerEntry \<times> LedgerEntry list)" where
  "ImmutableLedger_addEntry stringify now chain result =
     (if chain = [] then Inl TypeError
      else
        (let prev = chain ! (length chain - 1);
             idx = length chain;
             entry0 = \<lparr> index = idx,
                        LedgerEntry.transaction_id = FinalRiskResult.transaction_id result,
                        LedgerEntry.timestamp = now,
                        LedgerEntry.final_risk_score = FinalRiskResult.final_risk_score result,
                        LedgerEntry.decision = Decision_string (FinalRiskResult.decision result),
                        previous_hash = current_hash prev,
                        current_hash = [],
                        data_hash = SHA256_or_empty (stringify result) \<rparr>;
             entry = entry0 \<lparr> current_hash :=
                       calculateHash idx (previous_hash entry0) (LedgerEntry.transaction_id entry0)
                         (LedgerEntry.final_risk_score entry0) \<rparr>
         in Inr (entry, chain @ [entry])))"

text \<open>The loop of \<^verbatim>\<open>verifyIntegrity\<close>, from \<open>i\<close> on.\<close>

function verifyIntegrity_from :: "LedgerEntry list \<Rightarrow> nat \<Rightarrow> bool" where
  "verifyIntegrity_from chain i =
     (if i < length chain then
        (let current = chain ! i;
             previous = chain ! (i - 1)
         in if previous_hash current \<noteq> current_hash previous then False
            else
              (let recalculated = calculateHash (index current) (previous_hash current)
                                    (LedgerEntry.transaction_id current)
                                    (LedgerEntry.final_risk_score current)
               in if current_hash current \<noteq> recalculated then False
                  else verifyIntegrity_from chain (i + 1)))
      else True)"
  by pat_completeness auto
termination
  by (relation "measure (\<lambda>(chain, i). length chain - i)") auto

declare verifyIntegrity_from.simps [simp del]

definition ImmutableLedger_verifyIntegrity :: "LedgerEntry list \<Rightarrow> bool" where
  "ImmutableLedger_verifyIntegrity chain = verifyIntegrity_from chain 1"

datatype LedgerAddResult = LedgerOk LedgerEntry | LedgerNotOk ReasonCode

definition ImmutableLedger_verifyAndAdd ::
    "(FinalRiskResult \<Rightarrow> string) \<Rightarrow> int \<Rightarrow> LedgerEntry list \<Rightarrow> FinalRiskResult
      \<Rightarrow> error + (LedgerAddResult \<times> LedgerEntry list)" where
  "ImmutableLedger_verifyAndAdd stringify now chain result =
     (if \<not> ImmutableLedger_verifyIntegrity chain then Inr (LedgerNotOk ERR_CHAIN_MISMATCH, chain)
      else
        (case ImmutableLedger_addEntry stringify now chain result of
           Inl e \<Rightarrow> Inl e
         | Inr (entry, chain1) \<Rightarrow> Inr (LedgerOk entry, chain1)))"

definition ImmutableLedger_getChain :: "LedgerEntry list \<Rightarrow> LedgerEntry list" where
  "ImmutableLedger_getChain chain = chain"

text \<open>A sequence of plain \<^verbatim>\<open>addEntry\<close> calls, each with its reading of the clock; an
  exception ends it.\<close>

fun addEntries ::
    "(FinalRiskResult \<Rightarrow> string) \<Rightarrow> LedgerEntry list \<Rightarrow> (int \<times> FinalRiskResult) list
      \<Rightarrow> error + LedgerEntry list" where
  "addEntries stringify chain [] = Inr chain"
| "addEntries stringify chain ((now, result) # rest) =
     (case ImmutableLedger_addEntry stringify now chain result of
        Inl e \<Rightarrow> Inl e
      | Inr (entry, chain1) \<Rightarrow> addEntries stringify chain1 rest)"

section \<open>The earlier revision of the engine\<close>

text \<open>
  The repository also holds an earlier revision of \<^verbatim>\<open>SentinelEngine.ts\<close>, without reason
  codes, detector and tracker. Two parts of it differ from the revision above in what the
  properties below are about: the mapping from the clamped score to the decision, and the
  amount engine, whose three checks are independent and whose score is not clamped.
\<close>

definition legacy_decision :: "int \<Rightarrow> Decision" where
  "legacy_decision finalScore' =
     (if finalScore' \<ge> 60 then BLOCK else if finalScore' \<ge> 30 then STEP_UP else APPROVE)"

definition legacy_AmountRiskEngine_evaluate :: "Transaction \<Rightarrow> UserProfile \<Rightarrow> RiskResult" where
  "legacy_AmountRiskEngine_evaluate tx profile =
     (let sr0 = (0, []);
          sr1 = (if Transaction.amount tx > max_transaction_amount profile
                 then (fst sr0 + 100, snd sr0 @ [''Exceeds Max Limit''])
                 else sr0);
          sr2 = (if Transaction.amount tx > daily_transaction_limit profile
                 then (fst sr1 + 50, snd sr1 @ [''Exceeds Daily Limit''])
                 else sr1);
          sr3 = (if Transaction.amount tx > avg_transaction_amount profile * 3
                 then (fst sr2 + 20, snd sr2 @ [''Abnormal Amount Spike''])
                 else sr2)
      in \<lparr> RiskResult.score = fst sr3, RiskResult.reasoning = snd sr3,
           RiskResult.multiplier = None \<rparr>)"

section \<open>Example inputs\<close>

text \<open>The profile \<^verbatim>\<open>user_123\<close> of the mock data and a transaction of that user from
  the registered city and device, on 2024-01-15 at 10:00 UTC.\<close>

definition example_profile :: UserProfile where
  "example_profile =
     \<lparr> UserProfile.user_id = ''user_123'', registered_city = ''Mumbai'',
       registered_device_id = ''dev_iphone_13_001'', avg_transaction_amount = 2000,
       max_transaction_amount = 50000, daily_transaction_limit = 100000,
       avg_transactions_per_day = 5, kyc_status = VERIFIED, risk_category = LOW,
       account_status = ACTIVE, usual_login_times = (8, 23), last_login = 1705309200000,
       failed_attempts_last_10_min = 0 \<rparr>"

definition example_tx :: Transaction where
  "example_tx =
     \<lparr> Transaction.transaction_id = ''tx-0001'', Transaction.user_id = ''user_123'',
       Transaction.amount = 1500, Transaction.timestamp = 1705312800000,
       device_id = ''dev_iphone_13_001'', ip_address = ''10.0.0.1'',
       location = \<lparr> lat = 19076 / 1000, lon = 728777 / 10000, city = ''Mumbai'' \<rparr>,
       merchant_id = ''m_grocery'', Transaction.merchant_category = None,
       network_type = NET_4G, session_id = ''s-1'' \<rparr>"

text \<open>The result that a fresh engine gives for this transaction, measured at 1 ms.\<close>

definition example_result :: FinalRiskResult where
  "example_result = fst (SentinelEngine_evaluate SentinelEngine_new example_tx example_profile 1)"

text \<open>A tampered chain: a fresh ledger with one entry appended, whose \<^verbatim>\<open>previous_hash\<close>
  was then overwritten in place.\<close>

definition tampered_chain :: "LedgerEntry list" where
  "tampered_chain =
     (case ImmutableLedger_addEntry (\<lambda>r. []) 1 (ImmutableLedger_new 0) example_result of
        Inr (entry, chain) \<Rightarrow> chain[1 := (chain ! 1) \<lparr> previous_hash := ''0'' \<rparr>]
      | Inl e \<Rightarrow> [])"

text \<open>A serialisation that gives the empty string for every result, for the examples in
  which \<^verbatim>\<open>data_hash\<close> plays no part.\<close>

definition blank_stringify :: "FinalRiskResult \<Rightarrow> string" where
  "blank_stringify r = []"

section \<open>Auxiliary notions for the properties\<close>

text \<open>A chain is linked when every entry carries its position as index and every entry
  after the first points to the hash of its predecessor and carries the hash of its own
  four hashed fields.\<close>

definition chain_linked :: "LedgerEntry list \<Rightarrow> bool" where
  "chain_linked chain \<longleftrightarrow>
     chain \<noteq> [] \<and>
     (\<forall>i < length chain. index (chain ! i) = i) \<and>
     (\<forall>i. 0 < i \<and> i < length chain \<longrightarrow>
        previous_hash (chain ! i) = current_hash (chain ! (i - 1)) \<and>
        current_hash (chain ! i) =
          calculateHash (index (chain ! i)) (previous_hash (chain ! i))
            (LedgerEntry.transaction_id (chain ! i)) (LedgerEntry.final_risk_score (chain ! i)))"

text \<open>
  The first 64 primes, and the test that the 32 bits of \<open>v\<close> are the first 32 bits of
  the fractional part of the \<open>n\<close>-th root of \<open>p\<close> (the integer part of the roots that
  occur is below 8).
\<close>

definition first_primes :: "int list" where
  "first_primes =
     [2, 3, 5, 7, 11, 13, 17, 19, 23, 29, 31, 37, 41, 43, 47, 53, 59, 61, 67, 71, 73, 79, 83,
      89, 97, 101, 103, 107, 109, 113, 127, 131, 137, 139, 149, 151, 157, 163, 167, 173, 179,
      181, 191, 193, 197, 199, 211, 223, 227, 229, 233, 239, 241, 251, 257, 263, 269, 271, 277,
      281, 283, 293, 307, 311]"

definition root_fraction_bits :: "nat \<Rightarrow> int \<Rightarrow> int \<Rightarrow> bool" where
  "root_fraction_bits n p v \<longleftrightarrow>
     list_ex (\<lambda>i. (i * maxWord + toUint32 v) ^ n \<le> p * maxWord ^ n
                  \<and> p * maxWord ^ n < (i * maxWord + toUint32 v + 1) ^ n)
       [0, 1, 2, 3, 4, 5, 6, 7]"

text \<open>The step-up timestamps that the tracker holds for a user; none for a user it has not
  seen.\<close>

definition stepUps_of :: "EscalationTracker \<Rightarrow> string \<Rightarrow> int list" where
  "stepUps_of state userId =
     (case state userId of None \<Rightarrow> [] | Some s \<Rightarrow> stepUpTimestamps s)"

text \<open>Inputs for the decision paths: a transaction from an unregistered device over a
  VPN (score 45), the same with an amount above three times the average (score 65), a
  transaction above the maximum amount (score 75), a blocked profile, and an engine whose
  tracker holds three step-ups of the user within the last minutes.\<close>

definition tx_vpn_new_device :: Transaction where
  "tx_vpn_new_device = example_tx \<lparr> device_id := ''dev_unknown_77'', network_type := VPN \<rparr>"

definition tx_spike_vpn_new_device :: Transaction where
  "tx_spike_vpn_new_device = tx_vpn_new_device \<lparr> Transaction.amount := 7000 \<rparr>"

definition tx_over_max :: Transaction where
  "tx_over_max = example_tx \<lparr> Transaction.amount := 50001 \<rparr>"

definition blocked_profile :: UserProfile where
  "blocked_profile = example_profile \<lparr> account_status := BLOCKED \<rparr>"

definition engine_three_stepups :: SentinelEngine where
  "engine_three_stepups =
     SentinelEngine_new \<lparr> escalationTracker :=
       [''user_123'' \<mapsto> \<lparr> stepUpTimestamps = [1705312500000, 1705312600000, 1705312700000] \<rparr>] \<rparr>"

text \<open>A profile whose maximum amount lies below its daily limit and below three times its
  average, and transactions of exactly and just above that maximum.\<close>

definition profile_high_avg :: UserProfile where
  "profile_high_avg = example_profile \<lparr> avg_transaction_amount := 20000 \<rparr>"

definition tx_at_max :: Transaction where
  "tx_at_max = example_tx \<lparr> Transaction.amount := 50000 \<rparr>"

text \<open>Four recorded events of four other users, in the merchant category of the example
  transaction, with amounts within five percent of its amount and within its two-minute
  window; and an engine whose detector holds them.\<close>

definition events_four_users :: "CoordEvent list" where
  "events_four_users =
     [\<lparr> CoordEvent.user_id = ''user_a'', CoordEvent.merchant_category = ''m_grocery'',
         CoordEvent.amount = 1500, CoordEvent.timestamp = 1705312700000 \<rparr>,
      \<lparr> CoordEvent.user_id = ''user_b'', CoordEvent.merchant_category = ''m_grocery'',
         CoordEvent.amount = 1425, CoordEvent.timestamp = 1705312710000 \<rparr>,
      \<lparr> CoordEvent.user_id = ''user_c'', CoordEvent.merchant_category = ''m_grocery'',
         CoordEvent.amount = 1575, CoordEvent.timestamp = 1705312720000 \<rparr>,
      \<lparr> CoordEvent.user_id = ''user_d'', CoordEvent.merchant_category = ''m_grocery'',
         CoordEvent.amount = 1510, CoordEvent.timestamp = 1705312680000 \<rparr>]"

definition engine_four_events :: SentinelEngine where
  "engine_four_events = SentinelEngine_new \<lparr> coordDetector := events_four_users \<rparr>"

text \<open>The event that \<^verbatim>\<open>record(tx)\<close> pushes.\<close>

definition event_of :: "Transaction \<Rightarrow> CoordEvent" where
  "event_of tx =
     \<lparr> CoordEvent.user_id = Transaction.user_id tx,
       CoordEvent.merchant_category = category_of tx,
       CoordEvent.amount = Transaction.amount tx,
       CoordEvent.timestamp = Transaction.timestamp tx \<rparr>"

text \<open>A run of four transactions of one user: three from an unregistered device over a
  VPN, then one that also has an amount above three times the average.\<close>

definition four_inputs :: "(Transaction \<times> UserProfile \<times> rat) list" where
  "four_inputs =
     [(tx_vpn_new_device, example_profile, 1), (tx_vpn_new_device, example_profile, 1),
      (tx_vpn_new_device, example_profile, 1), (tx_spike_vpn_new_device, example_profile, 1)]"

chapter \<open>Properties\<close>

section \<open>The ledger\<close>

subsection \<open>The tables of SHA-256\<close>

text \<open>The literals of \<open>sha256_h\<close> and \<open>sha256_k\<close> are the first 32 fractional bits
  of the square roots of the first 8 primes and of the cube roots of the first 64
  primes.\<close>

lemma sha256_tables_are_roots:
  "list_all2 (root_fraction_bits 2) (take 8 first_primes) sha256_h"
  "list_all2 (root_fraction_bits 3) first_primes sha256_k"
  by code_simp+

subsection \<open>Two hash values\<close>

text \<open>The hash that the constructor stores in the genesis block, and the hash of the
  genesis block's own four fields. Both are computed with the SHA-256 above.\<close>

lemma genesis_hash_value:
  "calculateHash 0 ''0'' ''GENESIS'' 0
     = ''ae59d6d024862dd7a0fbfbbe70c61d4e58086c9628975e1fe84b1f81a45ee963''"
  by code_simp

lemma genesis_rehash_value:
  "calculateHash 0 ''0'' ''00000000-0000-0000-0000-000000000000'' 0
     = ''1103faee78ff4d90ed459217ed731627dcf25244d2a68d274a10a3bab79faaf5''"
  by code_simp

subsection \<open>Appending keeps the chain linked\<close>


lemma addEntry_nonempty:
  assumes "chain \<noteq> []"
  shows "\<exists>entry. ImmutableLedger_addEntry stringify now chain result = Inr (entry, chain @ [entry])
           \<and> index entry = length chain
           \<and> LedgerEntry.transaction_id entry = FinalRiskResult.transaction_id result
           \<and> LedgerEntry.final_risk_score entry = FinalRiskResult.final_risk_score result
           \<and> previous_hash entry = current_hash (last chain)
           \<and> current_hash entry =
                calculateHash (length chain) (current_hash (last chain))
                  (FinalRiskResult.transaction_id result) (FinalRiskResult.final_risk_score result)"
  using assms by (simp add: ImmutableLedger_addEntry_def Let_def last_conv_nth)

lemma chain_linked_new: "chain_linked (ImmutableLedger_new now)"
  by (simp add: chain_linked_def ImmutableLedger_new_def)

lemma chain_linked_snoc:
  assumes ok: "chain_linked chain"
    and e: "index entry = length chain" "previous_hash entry = current_hash (last chain)"
      "current_hash entry = calculateHash (index entry) (previous_hash entry)
          (LedgerEntry.transaction_id entry) (LedgerEntry.final_risk_score entry)"
  shows "chain_linked (chain @ [entry])"
proof -
  from ok have ne: "chain \<noteq> []" by (simp add: chain_linked_def)
  have idx: "index ((chain @ [entry]) ! i) = i" if "i < length (chain @ [entry])" for i
    using that ok e(1) by (cases "i < length chain") (auto simp: chain_linked_def nth_append)
  have link: "previous_hash ((chain @ [entry]) ! i) = current_hash ((chain @ [entry]) ! (i - 1)) \<and>
        current_hash ((chain @ [entry]) ! i) =
          calculateHash (index ((chain @ [entry]) ! i)) (previous_hash ((chain @ [entry]) ! i))
            (LedgerEntry.transaction_id ((chain @ [entry]) ! i))
            (LedgerEntry.final_risk_score ((chain @ [entry]) ! i))"
    if "0 < i" "i < length (chain @ [entry])" for i
  proof (cases "i < length chain")
    case True
    from ok that(1) True
    have "previous_hash (chain ! i) = current_hash (chain ! (i - 1)) \<and>
        current_hash (chain ! i) =
          calculateHash (index (chain ! i)) (previous_hash (chain ! i))
            (LedgerEntry.transaction_id (chain ! i)) (LedgerEntry.final_risk_score (chain ! i))"
      unfolding chain_linked_def by blast
    moreover from True have "(chain @ [entry]) ! i = chain ! i" "(chain @ [entry]) ! (i - 1) = chain ! (i - 1)"
      by (simp_all add: nth_append)
    ultimately show ?thesis by simp
  next
    case False
    with that have i: "i = length chain" by simp
    with ne have "i - 1 < length chain" by (cases chain) auto
    then have "(chain @ [entry]) ! (i - 1) = last chain"
      using i ne by (simp add: nth_append last_conv_nth)
    moreover have "(chain @ [entry]) ! i = entry" using i by simp
    ultimately show ?thesis using e by simp
  qed
  show ?thesis unfolding chain_linked_def using idx link by blast
qed

lemma addEntries_linked:
  assumes "chain_linked chain"
  shows "\<exists>chain'. addEntries stringify chain rs = Inr chain'
           \<and> length chain' = length chain + length rs \<and> chain_linked chain'
           \<and> take (length chain) chain' = chain"
  using assms
proof (induction rs arbitrary: chain)
  case Nil
  then show ?case by simp
next
  case (Cons a rs)
  obtain now result where a: "a = (now, result)" by (cases a)
  from Cons.prems have ne: "chain \<noteq> []" by (simp add: chain_linked_def)
  from addEntry_nonempty [OF ne, of stringify now result]
  obtain entry where en: "ImmutableLedger_addEntry stringify now chain result = Inr (entry, chain @ [entry])"
    "index entry = length chain" "previous_hash entry = current_hash (last chain)"
    "LedgerEntry.transaction_id entry = FinalRiskResult.transaction_id result"
    "LedgerEntry.final_risk_score entry = FinalRiskResult.final_risk_score result"
    "current_hash entry =
                calculateHash (length chain) (current_hash (last chain))
                  (FinalRiskResult.transaction_id result) (FinalRiskResult.final_risk_score result)"
    by blast
  have "chain_linked (chain @ [entry])"
    by (rule chain_linked_snoc [OF Cons.prems]) (simp_all add: en)
  from Cons.IH [OF this, of ] obtain chain' where c: "addEntries stringify (chain @ [entry]) rs = Inr chain'"
     "length chain' = length (chain @ [entry]) + length rs" "chain_linked chain'"
     "take (length (chain @ [entry])) chain' = chain @ [entry]" by blast
  from c(4) have "take (length chain) (take (length (chain @ [entry])) chain') = chain" by simp
  then have "take (length chain) chain' = chain" by (simp add: min_def)
  with c en(1) a show ?case by simp
qed

lemma verifyIntegrity_from_linked:
  assumes "chain_linked chain" "0 < i"
  shows "verifyIntegrity_from chain i"
  using assms
proof (induction chain i rule: verifyIntegrity_from.induct)
  case (1 chain i)
  show ?case
  proof (cases "i < length chain")
    case True
    with "1.prems" have l: "previous_hash (chain ! i) = current_hash (chain ! (i - 1))"
      "current_hash (chain ! i) =
          calculateHash (index (chain ! i)) (previous_hash (chain ! i))
            (LedgerEntry.transaction_id (chain ! i)) (LedgerEntry.final_risk_score (chain ! i))"
      by (simp_all add: chain_linked_def)
    have "verifyIntegrity_from chain (i + 1)"
      using "1.IH" [OF True refl refl _ refl] l "1.prems" by simp
    with True l show ?thesis
      by (subst verifyIntegrity_from.simps) (simp add: Let_def)
  next
    case False
    then show ?thesis by (subst verifyIntegrity_from.simps) simp
  qed
qed

lemma verifyIntegrity_new: "ImmutableLedger_verifyIntegrity (ImmutableLedger_new now)"
  unfolding ImmutableLedger_verifyIntegrity_def
  by (rule verifyIntegrity_from_linked [OF chain_linked_new]) simp

lemma addEntry_empty: "ImmutableLedger_addEntry stringify now [] result = Inl TypeError"
  by (simp add: ImmutableLedger_addEntry_def)

lemma tampered_chain_broken: "\<not> ImmutableLedger_verifyIntegrity tampered_chain"
proof -
  have "tampered_chain ! 1 = (tampered_chain ! 1) \<lparr> previous_hash := ''0'' \<rparr>"
    "length tampered_chain = 2"
    "current_hash (tampered_chain ! 0) = calculateHash 0 ''0'' ''GENESIS'' 0"
    by (simp_all add: tampered_chain_def ImmutableLedger_addEntry_def ImmutableLedger_new_def Let_def)
  then have "previous_hash (tampered_chain ! 1) = ''0''" "length tampered_chain = 2"
    "current_hash (tampered_chain ! 0)
       = ''ae59d6d024862dd7a0fbfbbe70c61d4e58086c9628975e1fe84b1f81a45ee963''"
    by (metis LedgerEntry.select_convs(6) LedgerEntry.surjective LedgerEntry.update_convs(6),
        simp, simp add: genesis_hash_value)
  then show ?thesis
    unfolding ImmutableLedger_verifyIntegrity_def
    by (subst verifyIntegrity_from.simps) (simp add: Let_def)
qed

text \<open>
  C3. After any sequence of \<open>N\<close> plain \<^verbatim>\<open>addEntry\<close> calls on a freshly constructed
  ledger no call has thrown, the chain has \<open>N + 1\<close> entries whose indices are
  \<open>0, \<dots>, N\<close> in order, every entry after the first holds as \<^verbatim>\<open>previous_hash\<close> the
  \<^verbatim>\<open>current_hash\<close> of its predecessor, and \<^verbatim>\<open>verifyIntegrity()\<close> returns true.
\<close>

theorem ledger_appends_linked:
  "\<exists>chain. addEntries stringify (ImmutableLedger_new now) rs = Inr chain
      \<and> length chain = length rs + 1
      \<and> (\<forall>i < length chain. index (chain ! i) = i)
      \<and> (\<forall>i. 0 < i \<and> i < length chain \<longrightarrow>
             previous_hash (chain ! i) = current_hash (chain ! (i - 1)))
      \<and> ImmutableLedger_verifyIntegrity chain"
proof -
  from addEntries_linked [OF chain_linked_new, of stringify now rs]
  obtain chain where c: "addEntries stringify (ImmutableLedger_new now) rs = Inr chain"
    "length chain = length (ImmutableLedger_new now) + length rs" "chain_linked chain"
    by blast
  have "ImmutableLedger_verifyIntegrity chain"
    unfolding ImmutableLedger_verifyIntegrity_def
    by (rule verifyIntegrity_from_linked [OF c(3)]) simp
  moreover have "length chain = length rs + 1"
    using c(2) by (simp add: ImmutableLedger_new_def)
  ultimately show ?thesis
    using c(1,3) unfolding chain_linked_def by blast
qed

theorem ledger_appends_linked_witness:
  "\<exists>chain. addEntries (\<lambda>r. []) (ImmutableLedger_new 0) [(1, example_result), (2, example_result)]
              = Inr chain
      \<and> length chain = 3
      \<and> (\<forall>i < length chain. index (chain ! i) = i)
      \<and> (\<forall>i. 0 < i \<and> i < length chain \<longrightarrow>
             previous_hash (chain ! i) = current_hash (chain ! (i - 1)))
      \<and> ImmutableLedger_verifyIntegrity chain"
  using ledger_appends_linked [of "\<lambda>r. []" 0 "[(1, example_result), (2, example_result)]"]
  by (simp add: numeral_3_eq_3 del: addEntries.simps)

text \<open>
  C4, as stated for every ledger state, fails on the state in which the array that
  \<^verbatim>\<open>getChain()\<close> hands out has been emptied: the loop of \<^verbatim>\<open>verifyIntegrity()\<close> starts
  at 1 and returns true, and \<^verbatim>\<open>verifyAndAdd\<close> then neither returns the failure nor
  appends an entry and returns it, but throws in \<^verbatim>\<open>addEntry\<close> at
  \<^verbatim>\<open>prev.current_hash\<close>.
\<close>

theorem verifyAndAdd_empty_counterexample:
  "ImmutableLedger_verifyIntegrity []
   \<and> ImmutableLedger_verifyAndAdd blank_stringify 2 [] example_result = Inl TypeError"
proof -
  have v: "ImmutableLedger_verifyIntegrity []"
    unfolding ImmutableLedger_verifyIntegrity_def
    by (subst verifyIntegrity_from.simps) simp
  then show ?thesis
    by (simp add: ImmutableLedger_verifyAndAdd_def addEntry_empty)
qed

text \<open>
  C4, amended. For every ledger state and every result, \<^verbatim>\<open>verifyAndAdd\<close> (the spec's
  \<^verbatim>\<open>verifyAndAppend\<close>) returns the failure with reason \<^verbatim>\<open>ERR_CHAIN_MISMATCH\<close> and
  leaves the chain as it was whenever \<^verbatim>\<open>verifyIntegrity()\<close> is false; whenever
  \<^verbatim>\<open>verifyIntegrity()\<close> is true and the chain holds at least one entry, it appends
  exactly the entry that \<^verbatim>\<open>addEntry\<close> builds and returns it.
\<close>

theorem verifyAndAdd_guard:
  "(\<not> ImmutableLedger_verifyIntegrity chain \<longrightarrow>
       ImmutableLedger_verifyAndAdd stringify now chain result
         = Inr (LedgerNotOk ERR_CHAIN_MISMATCH, chain))
   \<and> (ImmutableLedger_verifyIntegrity chain \<and> chain \<noteq> [] \<longrightarrow>
       (\<exists>entry. ImmutableLedger_verifyAndAdd stringify now chain result
                   = Inr (LedgerOk entry, chain @ [entry])
               \<and> ImmutableLedger_addEntry stringify now chain result
                   = Inr (entry, chain @ [entry])))"
proof (intro conjI impI)
  assume "\<not> ImmutableLedger_verifyIntegrity chain"
  then show "ImmutableLedger_verifyAndAdd stringify now chain result
         = Inr (LedgerNotOk ERR_CHAIN_MISMATCH, chain)"
    by (simp add: ImmutableLedger_verifyAndAdd_def)
next
  assume a: "ImmutableLedger_verifyIntegrity chain \<and> chain \<noteq> []"
  then obtain entry where "ImmutableLedger_addEntry stringify now chain result = Inr (entry, chain @ [entry])"
    using addEntry_nonempty [of chain stringify now result] by blast
  with a show "\<exists>entry. ImmutableLedger_verifyAndAdd stringify now chain result
                   = Inr (LedgerOk entry, chain @ [entry])
               \<and> ImmutableLedger_addEntry stringify now chain result
                   = Inr (entry, chain @ [entry])"
    by (simp add: ImmutableLedger_verifyAndAdd_def)
qed

theorem verifyAndAdd_guard_witness:
  "\<not> ImmutableLedger_verifyIntegrity tampered_chain
   \<and> ImmutableLedger_verifyAndAdd (\<lambda>r. []) 2 tampered_chain example_result
         = Inr (LedgerNotOk ERR_CHAIN_MISMATCH, tampered_chain)
   \<and> ImmutableLedger_verifyIntegrity (ImmutableLedger_new 0) \<and> ImmutableLedger_new 0 \<noteq> []
   \<and> (\<exists>entry. ImmutableLedger_verifyAndAdd (\<lambda>r. []) 2 (ImmutableLedger_new 0) example_result
                   = Inr (LedgerOk entry, ImmutableLedger_new 0 @ [entry])
               \<and> ImmutableLedger_addEntry (\<lambda>r. []) 2 (ImmutableLedger_new 0) example_result
                   = Inr (entry, ImmutableLedger_new 0 @ [entry]))"
proof -
  have ne: "ImmutableLedger_new 0 \<noteq> []" by (simp add: ImmutableLedger_new_def)
  show ?thesis
    using verifyAndAdd_guard [of tampered_chain "\<lambda>r. []" 2 example_result]
      verifyAndAdd_guard [of "ImmutableLedger_new 0" "\<lambda>r. []" 2 example_result]
      tampered_chain_broken verifyIntegrity_new [of 0] ne
    by blast
qed

text \<open>
  C5, as stated, fails at the genesis block of a fresh ledger: the constructor stores
  the hash of \<^verbatim>\<open>0\<close>, \<^verbatim>\<open>'0'\<close>, \<^verbatim>\<open>'GENESIS'\<close>, \<^verbatim>\<open>0\<close>, while the block's
  \<^verbatim>\<open>transaction_id\<close> is \<^verbatim>\<open>'00000000-0000-0000-0000-000000000000'\<close>.
\<close>

theorem genesis_recompute_counterexample:
  "calculateHash (index (hd (ImmutableLedger_new 0))) (previous_hash (hd (ImmutableLedger_new 0)))
     (LedgerEntry.transaction_id (hd (ImmutableLedger_new 0)))
     (LedgerEntry.final_risk_score (hd (ImmutableLedger_new 0)))
   \<noteq> current_hash (hd (ImmutableLedger_new 0))"
  by (simp add: ImmutableLedger_new_def genesis_hash_value genesis_rehash_value)

text \<open>
  C5, amended. In the chain that any sequence of \<^verbatim>\<open>addEntry\<close> calls builds on a fresh
  ledger, every entry after the genesis block stores as \<^verbatim>\<open>current_hash\<close> the hash of
  its own index, \<^verbatim>\<open>previous_hash\<close>, \<^verbatim>\<open>transaction_id\<close> and \<^verbatim>\<open>final_risk_score\<close>; the
  genesis block stores the hash of \<^verbatim>\<open>0\<close>, \<^verbatim>\<open>'0'\<close>, \<^verbatim>\<open>'GENESIS'\<close>, \<^verbatim>\<open>0\<close>.
\<close>

theorem appended_entries_recompute:
  "\<exists>chain. addEntries stringify (ImmutableLedger_new now) rs = Inr chain
      \<and> (\<forall>i. 0 < i \<and> i < length chain \<longrightarrow>
             calculateHash (index (chain ! i)) (previous_hash (chain ! i))
               (LedgerEntry.transaction_id (chain ! i)) (LedgerEntry.final_risk_score (chain ! i))
             = current_hash (chain ! i))
      \<and> current_hash (chain ! 0) = calculateHash 0 ''0'' ''GENESIS'' 0"
proof -
  from addEntries_linked [OF chain_linked_new, of stringify now rs]
  obtain chain where c: "addEntries stringify (ImmutableLedger_new now) rs = Inr chain"
    "chain_linked chain"
    "take (length (ImmutableLedger_new now)) chain = ImmutableLedger_new now"
    by blast
  from c(3) have "take 1 chain = ImmutableLedger_new now"
    by (simp add: ImmutableLedger_new_def)
  then have "chain ! 0 = ImmutableLedger_new now ! 0"
    by (metis nth_take zero_less_one)
  then have "current_hash (chain ! 0) = calculateHash 0 ''0'' ''GENESIS'' 0"
    by (simp add: ImmutableLedger_new_def)
  moreover have "\<forall>i. 0 < i \<and> i < length chain \<longrightarrow>
             calculateHash (index (chain ! i)) (previous_hash (chain ! i))
               (LedgerEntry.transaction_id (chain ! i)) (LedgerEntry.final_risk_score (chain ! i))
             = current_hash (chain ! i)"
    using c(2) unfolding chain_linked_def by metis
  ultimately show ?thesis using c(1) by blast
qed

theorem appended_entries_recompute_witness:
  "\<exists>chain. addEntries (\<lambda>r. []) (ImmutableLedger_new 0) [(1, example_result), (2, example_result)]
              = Inr chain
      \<and> (\<forall>i. 0 < i \<and> i < length chain \<longrightarrow>
             calculateHash (index (chain ! i)) (previous_hash (chain ! i))
               (LedgerEntry.transaction_id (chain ! i)) (LedgerEntry.final_risk_score (chain ! i))
             = current_hash (chain ! i))
      \<and> current_hash (chain ! 0)
          = ''ae59d6d024862dd7a0fbfbbe70c61d4e58086c9628975e1fe84b1f81a45ee963''"
  using appended_entries_recompute [of "\<lambda>r. []" 0 "[(1, example_result), (2, example_result)]"]
  by (simp add: genesis_hash_value del: addEntries.simps)

section \<open>The engine\<close>

subsection \<open>Clamp, tracker and detector\<close>

lemma clamp_bounds: "mn \<le> mx \<Longrightarrow> mn \<le> clamp v mn mx \<and> clamp v mn mx \<le> mx"
  by (simp add: clamp_def)

lemma get_stepUps:
  "stepUpTimestamps (fst (EscalationTracker_get state u)) = stepUps_of state u"
  "stepUps_of (snd (EscalationTracker_get state u)) v = stepUps_of state v"
  by (simp_all add: EscalationTracker_get_def stepUps_of_def split: option.splits)

lemma shouldForceBlock_fst:
  "fst (EscalationTracker_shouldForceBlock state u s ts)
     \<longleftrightarrow> 3 \<le> length (filter (\<lambda>t. t > ts - 900000) (stepUps_of state u)) \<and> 60 \<le> s"
  by (simp add: EscalationTracker_shouldForceBlock_def split_def Let_def get_stepUps
      ESC_WINDOW_MS_def ESC_MIN_STEPUPS_def ESC_RISK_THRESH_def)

lemma shouldForceBlock_snd:
  "stepUps_of (snd (EscalationTracker_shouldForceBlock state u s ts)) v = stepUps_of state v"
  by (simp add: EscalationTracker_shouldForceBlock_def split_def Let_def get_stepUps)

lemma recordStepUp_stepUps:
  "stepUps_of (EscalationTracker_recordStepUp state u ts) v
     = (if v = u then filter (\<lambda>t. t > ts - 900000) (stepUps_of state u) @ [ts]
        else stepUps_of state v)"
proof -
  have "stepUps_of ((snd (EscalationTracker_get state u))(u \<mapsto> s)) v
          = (if v = u then stepUpTimestamps s else stepUps_of state v)" for s
    using get_stepUps(2) [of state u v] by (simp add: stepUps_of_def)
  then show ?thesis
    by (simp add: EscalationTracker_recordStepUp_def split_def Let_def get_stepUps ESC_WINDOW_MS_def)
qed

lemma recordBlock_stepUps:
  "stepUps_of (EscalationTracker_recordBlock state u) v
     = (if v = u then [] else stepUps_of state v)"
proof -
  have "stepUps_of ((snd (EscalationTracker_get state u))(u \<mapsto> s)) v
          = (if v = u then stepUpTimestamps s else stepUps_of state v)" for s
    using get_stepUps(2) [of state u v] by (simp add: stepUps_of_def)
  then show ?thesis
    by (simp add: EscalationTracker_recordBlock_def split_def Let_def)
qed

subsection \<open>The two parts of evaluate\<close>

lemma score_bounds:
  "0 \<le> finalScore (fst (SentinelEngine_score this tx profile))"
  "finalScore (fst (SentinelEngine_score this tx profile)) \<le> 100"
  by (simp_all add: SentinelEngine_score_def Let_def clamp_def)

lemma score_frame:
  "coordDetector (snd (SentinelEngine_score this tx profile))
     = CoordinatedAttackDetector_record (coordDetector this) tx"
  "escalationTracker (snd (SentinelEngine_score this tx profile)) = escalationTracker this"
  "transactionHistory (snd (SentinelEngine_score this tx profile)) = transactionHistory this"
  "latencyBuffer (snd (SentinelEngine_score this tx profile)) = latencyBuffer this"
  "coordinated (fst (SentinelEngine_score this tx profile))
     = CoordinatedAttackDetector_detect (CoordinatedAttackDetector_record (coordDetector this) tx) tx"
  by (simp_all add: SentinelEngine_score_def Let_def)

lemma secondaryCheck_frame:
  "coordDetector (snd (SentinelEngine_secondaryCheck this tx profile)) = coordDetector this"
  "transactionHistory (snd (SentinelEngine_secondaryCheck this tx profile)) = transactionHistory this"
  "latencyBuffer (snd (SentinelEngine_secondaryCheck this tx profile)) = latencyBuffer this"
  "stepUps_of (escalationTracker (snd (SentinelEngine_secondaryCheck this tx profile))) v
     = stepUps_of (escalationTracker this) v"
  by (simp_all add: SentinelEngine_secondaryCheck_def Let_def split_def shouldForceBlock_snd)

lemma secondaryCheck_after_get:
  "fst (SentinelEngine_secondaryCheck
          (this \<lparr> escalationTracker :=
             snd (EscalationTracker_shouldForceBlock (escalationTracker this) u s ts) \<rparr>) tx profile)
     = fst (SentinelEngine_secondaryCheck this tx profile)"
  by (simp add: SentinelEngine_secondaryCheck_def Let_def split_def shouldForceBlock_fst
      shouldForceBlock_snd)

text \<open>The decision, read off the score, the tracker before the call and the secondary
  check.\<close>

lemma decide_decision:
  "Decided.decision (fst (SentinelEngine_decide this tx profile sc)) =
     (if 70 \<le> finalScore sc then BLOCK
      else if 40 \<le> finalScore sc then
        (if fst (EscalationTracker_shouldForceBlock (escalationTracker this) (Transaction.user_id tx)
                   (finalScore sc) (Transaction.timestamp tx)) then BLOCK
         else if fst (SentinelEngine_secondaryCheck this tx profile) then STEP_UP else BLOCK)
      else APPROVE)"
  by (simp add: SentinelEngine_decide_def Let_def split_def THRESHOLD_BLOCK_def THRESHOLD_PASS_def
      secondaryCheck_after_get)

lemma decide_override:
  "escalationOverride (fst (SentinelEngine_decide this tx profile sc)) \<longleftrightarrow>
     40 \<le> finalScore sc \<and> finalScore sc < 70 \<and>
     fst (EscalationTracker_shouldForceBlock (escalationTracker this) (Transaction.user_id tx)
            (finalScore sc) (Transaction.timestamp tx))"
  by (auto simp add: SentinelEngine_decide_def Let_def split_def THRESHOLD_BLOCK_def THRESHOLD_PASS_def)

lemma decide_finalScore:
  "finalScore (fst (SentinelEngine_decide this tx profile sc)) =
     (if escalationOverride (fst (SentinelEngine_decide this tx profile sc))
      then max (finalScore sc) 70 else finalScore sc)"
  by (simp add: SentinelEngine_decide_def Let_def split_def THRESHOLD_BLOCK_def THRESHOLD_PASS_def)

lemma decide_reasonCode:
  "reasonCode (fst (SentinelEngine_decide this tx profile sc)) =
     (if 70 \<le> finalScore sc then
        (if coordinated sc then ERR_COORDINATED_ATTACK
         else SentinelEngine_primaryReasonCode (allReasons sc))
      else if 40 \<le> finalScore sc then
        (if fst (EscalationTracker_shouldForceBlock (escalationTracker this) (Transaction.user_id tx)
                   (finalScore sc) (Transaction.timestamp tx)) then ERR_ESCALATION_OVERRIDE
         else SentinelEngine_primaryReasonCode (allReasons sc))
      else OK)"
  by (simp add: SentinelEngine_decide_def Let_def split_def THRESHOLD_BLOCK_def THRESHOLD_PASS_def)

lemma decide_frame:
  "coordDetector (snd (SentinelEngine_decide this tx profile sc)) = coordDetector this"
  "transactionHistory (snd (SentinelEngine_decide this tx profile sc)) = transactionHistory this"
  "latencyBuffer (snd (SentinelEngine_decide this tx profile sc)) = latencyBuffer this"
  "stepUps_of (escalationTracker (snd (SentinelEngine_decide this tx profile sc))) v
     = stepUps_of (escalationTracker this) v"
  "componentScores (fst (SentinelEngine_decide this tx profile sc)) = componentScores sc"
  "coordinated (fst (SentinelEngine_decide this tx profile sc)) = coordinated sc"
  by (simp_all add: SentinelEngine_decide_def Let_def split_def secondaryCheck_frame
      shouldForceBlock_snd)

text \<open>The result and the engine after a call for an account that is not blocked.\<close>

lemma evaluate_result:
  assumes "account_status profile \<noteq> BLOCKED"
  shows "FinalRiskResult.final_risk_score (fst (SentinelEngine_evaluate this tx profile ms))
           = finalScore (fst (SentinelEngine_decide (snd (SentinelEngine_score this tx profile)) tx profile
                                (fst (SentinelEngine_score this tx profile))))"
    and "FinalRiskResult.decision (fst (SentinelEngine_evaluate this tx profile ms))
           = Decided.decision (fst (SentinelEngine_decide (snd (SentinelEngine_score this tx profile)) tx profile
                                (fst (SentinelEngine_score this tx profile))))"
    and "reason_code (fst (SentinelEngine_evaluate this tx profile ms))
           = reasonCode (fst (SentinelEngine_decide (snd (SentinelEngine_score this tx profile)) tx profile
                                (fst (SentinelEngine_score this tx profile))))"
    and "escalation_override (fst (SentinelEngine_evaluate this tx profile ms))
           = escalationOverride (fst (SentinelEngine_decide (snd (SentinelEngine_score this tx profile)) tx profile
                                (fst (SentinelEngine_score this tx profile))))"
    and "coordinated_attack (fst (SentinelEngine_evaluate this tx profile ms))
           = coordinated (fst (SentinelEngine_score this tx profile))"
    and "coordDetector (snd (SentinelEngine_evaluate this tx profile ms))
           = CoordinatedAttackDetector_record (coordDetector this) tx"
  using assms
  by (simp_all add: SentinelEngine_evaluate_def SentinelEngine_buildResult_def Let_def split_def
      decide_frame score_frame)

lemma evaluate_tracker:
  assumes "account_status profile \<noteq> BLOCKED"
  shows "stepUps_of (escalationTracker (snd (SentinelEngine_evaluate this tx profile ms))) v =
     (if v \<noteq> Transaction.user_id tx then stepUps_of (escalationTracker this) v
      else if FinalRiskResult.decision (fst (SentinelEngine_evaluate this tx profile ms)) = STEP_UP
        then filter (\<lambda>t. t > Transaction.timestamp tx - 900000)
               (stepUps_of (escalationTracker this) v) @ [Transaction.timestamp tx]
      else if FinalRiskResult.decision (fst (SentinelEngine_evaluate this tx profile ms)) = BLOCK
        then []
      else stepUps_of (escalationTracker this) v)"
  using assms
  by (simp add: SentinelEngine_evaluate_def SentinelEngine_buildResult_def Let_def split_def
      recordStepUp_stepUps recordBlock_stepUps decide_frame score_frame)

lemma evaluate_blocked:
  assumes "account_status profile = BLOCKED"
  shows "SentinelEngine_evaluate this tx profile ms =
     (SentinelEngine_buildResult
        (this \<lparr> latencyBuffer := RollingLatencyBuffer_record (latencyBuffer this) ms \<rparr>) tx 100
        \<lparr> geo_risk = 0, velocity_risk = 0, device_risk = 0, amount_risk = 0,
          network_risk = 0, behavioral_risk = 0 \<rparr>
        BLOCK [''ERR_BLOCKED_USER: Account is permanently blocked''] ERR_BLOCKED_USER ms False False,
      this \<lparr> latencyBuffer := RollingLatencyBuffer_record (latencyBuffer this) ms \<rparr>)"
  using assms by (simp add: SentinelEngine_evaluate_def Let_def)
subsection \<open>Evaluation of the definitions on concrete inputs\<close>

lemmas engine_defs =
  SentinelEngine_evaluate_def SentinelEngine_score_def SentinelEngine_decide_def
  SentinelEngine_secondaryCheck_def SentinelEngine_buildResult_def SentinelEngine_primaryReasonCode_def
  SentinelEngine_new_def
  GeoRiskEngine_evaluate_def VelocityRiskEngine_evaluate_def DeviceRiskEngine_evaluate_def
  AmountRiskEngine_evaluate_def NetworkSessionRiskEngine_evaluate_def BehavioralRiskEngine_evaluate_def
  CoordinatedAttackDetector_record_def CoordinatedAttackDetector_detect_def category_of_def
  EscalationTracker_get_def EscalationTracker_recordStepUp_def EscalationTracker_recordBlock_def
  EscalationTracker_shouldForceBlock_def
  RollingLatencyBuffer_record_def RollingLatencyBuffer_average_def RollingLatencyBuffer_isBreach_def
  clamp_def startsWith_def slice_last_def getHours_def
  THRESHOLD_PASS_def THRESHOLD_BLOCK_def MAX_LATENCY_MS_def LATENCY_WINDOW_def
  COORD_WINDOW_MS_def COORD_MIN_USERS_def COORD_AMOUNT_VARIANCE_def COORD_MULTIPLIER_def
  ESC_WINDOW_MS_def ESC_MIN_STEPUPS_def ESC_RISK_THRESH_def

lemmas example_defs = example_result_def example_tx_def example_profile_def tx_vpn_new_device_def
  tx_spike_vpn_new_device_def tx_over_max_def blocked_profile_def engine_three_stepups_def
  profile_high_avg_def tx_at_max_def events_four_users_def engine_four_events_def event_of_def
  four_inputs_def

lemma example_profile_not_blocked: "account_status example_profile \<noteq> BLOCKED"
  by (simp add: example_profile_def)

lemma example_scores:
  "finalScore (fst (SentinelEngine_score SentinelEngine_new example_tx example_profile)) = 0"
  "finalScore (fst (SentinelEngine_score SentinelEngine_new tx_vpn_new_device example_profile)) = 45"
  "finalScore (fst (SentinelEngine_score SentinelEngine_new tx_over_max example_profile)) = 75"
  "finalScore (fst (SentinelEngine_score engine_three_stepups tx_spike_vpn_new_device example_profile)) = 65"
  by (simp_all add: example_defs engine_defs Let_def)

subsection \<open>Score and decision\<close>

text \<open>
  C1. For an account that is not blocked, let \<open>s\<close> be the value of \<^verbatim>\<open>finalScore\<close>
  before the decision logic. If \<open>s \<ge> 70\<close> the decision is BLOCK. If \<open>40 \<le> s < 70\<close>,
  the escalation override does not fire and the secondary check allows the challenge, the
  decision is STEP_UP. If \<open>s < 40\<close> the decision is APPROVE with reason code OK. Without an
  escalation override the returned \<^verbatim>\<open>final_risk_score\<close> is \<open>s\<close>; so scores 40 and 70
  give STEP_UP and BLOCK.
\<close>

theorem decision_by_score:
  assumes "account_status profile \<noteq> BLOCKED"
  shows "(70 \<le> finalScore (fst (SentinelEngine_score this tx profile))
          \<longrightarrow> FinalRiskResult.decision (fst (SentinelEngine_evaluate this tx profile ms)) = BLOCK)
       \<and> (40 \<le> finalScore (fst (SentinelEngine_score this tx profile))
            \<and> finalScore (fst (SentinelEngine_score this tx profile)) < 70
            \<and> \<not> escalation_override (fst (SentinelEngine_evaluate this tx profile ms))
            \<and> fst (SentinelEngine_secondaryCheck (snd (SentinelEngine_score this tx profile)) tx profile)
          \<longrightarrow> FinalRiskResult.decision (fst (SentinelEngine_evaluate this tx profile ms)) = STEP_UP)
       \<and> (finalScore (fst (SentinelEngine_score this tx profile)) < 40
          \<longrightarrow> FinalRiskResult.decision (fst (SentinelEngine_evaluate this tx profile ms)) = APPROVE
              \<and> reason_code (fst (SentinelEngine_evaluate this tx profile ms)) = OK)
       \<and> (\<not> escalation_override (fst (SentinelEngine_evaluate this tx profile ms))
          \<longrightarrow> FinalRiskResult.final_risk_score (fst (SentinelEngine_evaluate this tx profile ms))
              = finalScore (fst (SentinelEngine_score this tx profile)))"
  using assms
  by (simp add: evaluate_result decide_decision decide_override decide_reasonCode decide_finalScore)

theorem decision_by_score_witness:
  "FinalRiskResult.decision (fst (SentinelEngine_evaluate SentinelEngine_new tx_over_max example_profile 1)) = BLOCK
   \<and> FinalRiskResult.final_risk_score
        (fst (SentinelEngine_evaluate SentinelEngine_new tx_over_max example_profile 1)) = 75
   \<and> FinalRiskResult.decision
        (fst (SentinelEngine_evaluate SentinelEngine_new tx_vpn_new_device example_profile 1)) = STEP_UP
   \<and> FinalRiskResult.final_risk_score
        (fst (SentinelEngine_evaluate SentinelEngine_new tx_vpn_new_device example_profile 1)) = 45
   \<and> FinalRiskResult.decision example_result = APPROVE \<and> reason_code example_result = OK
   \<and> FinalRiskResult.final_risk_score example_result = 0"
proof -
  have no: "\<not> escalation_override (fst (SentinelEngine_evaluate SentinelEngine_new tx_over_max example_profile 1))"
    "\<not> escalation_override (fst (SentinelEngine_evaluate SentinelEngine_new tx_vpn_new_device example_profile 1))"
    "\<not> escalation_override (fst (SentinelEngine_evaluate SentinelEngine_new example_tx example_profile 1))"
    by (simp_all add: example_defs engine_defs Let_def)
  have sec: "fst (SentinelEngine_secondaryCheck
                (snd (SentinelEngine_score SentinelEngine_new tx_vpn_new_device example_profile))
                tx_vpn_new_device example_profile)"
    by (simp add: example_defs engine_defs Let_def)
  show ?thesis
    using decision_by_score [OF example_profile_not_blocked, of SentinelEngine_new tx_over_max 1]
      decision_by_score [OF example_profile_not_blocked, of SentinelEngine_new tx_vpn_new_device 1]
      decision_by_score [OF example_profile_not_blocked, of SentinelEngine_new example_tx 1]
      no sec
    by (simp add: example_scores example_result_def)
qed

text \<open>
  C2. The \<^verbatim>\<open>final_risk_score\<close> of every result lies between 0 and 100: it is 100 for a
  blocked account, \<^verbatim>\<open>max(finalScore, 70)\<close> after an escalation override, and the clamped
  \<^verbatim>\<open>finalScore\<close> otherwise.
\<close>

theorem final_score_in_range:
  "0 \<le> FinalRiskResult.final_risk_score (fst (SentinelEngine_evaluate this tx profile ms))
   \<and> FinalRiskResult.final_risk_score (fst (SentinelEngine_evaluate this tx profile ms)) \<le> 100
   \<and> (account_status profile = BLOCKED
        \<longrightarrow> FinalRiskResult.final_risk_score (fst (SentinelEngine_evaluate this tx profile ms)) = 100)
   \<and> (account_status profile \<noteq> BLOCKED
        \<and> escalation_override (fst (SentinelEngine_evaluate this tx profile ms))
        \<longrightarrow> FinalRiskResult.final_risk_score (fst (SentinelEngine_evaluate this tx profile ms))
            = max (finalScore (fst (SentinelEngine_score this tx profile))) 70)
   \<and> (account_status profile \<noteq> BLOCKED
        \<and> \<not> escalation_override (fst (SentinelEngine_evaluate this tx profile ms))
        \<longrightarrow> FinalRiskResult.final_risk_score (fst (SentinelEngine_evaluate this tx profile ms))
            = finalScore (fst (SentinelEngine_score this tx profile)))"
proof (cases "account_status profile = BLOCKED")
  case True
  then show ?thesis
    by (simp add: evaluate_blocked SentinelEngine_buildResult_def)
next
  case False
  have "0 \<le> finalScore (fst (SentinelEngine_score this tx profile))"
    "finalScore (fst (SentinelEngine_score this tx profile)) \<le> 100"
    by (rule score_bounds)+
  with False show ?thesis
    by (auto simp add: evaluate_result decide_finalScore)
qed

theorem final_score_in_range_witness:
  "FinalRiskResult.final_risk_score
      (fst (SentinelEngine_evaluate engine_three_stepups tx_over_max blocked_profile 1)) = 100
   \<and> FinalRiskResult.final_risk_score
      (fst (SentinelEngine_evaluate engine_three_stepups tx_spike_vpn_new_device example_profile 1)) = 70
   \<and> 0 \<le> FinalRiskResult.final_risk_score example_result
   \<and> FinalRiskResult.final_risk_score example_result \<le> 100"
proof -
  have "account_status blocked_profile = BLOCKED"
    by (simp add: example_defs)
  moreover have "escalation_override
      (fst (SentinelEngine_evaluate engine_three_stepups tx_spike_vpn_new_device example_profile 1))"
    by (simp add: example_defs engine_defs Let_def)
  ultimately show ?thesis
    using final_score_in_range [of engine_three_stepups tx_over_max blocked_profile 1]
      final_score_in_range [of engine_three_stepups tx_spike_vpn_new_device example_profile 1]
      final_score_in_range [of SentinelEngine_new example_tx example_profile 1]
      example_profile_not_blocked
    by (simp add: example_scores example_result_def)
qed

text \<open>
  C8. For an account that is not blocked: when the value \<open>s\<close> of \<^verbatim>\<open>finalScore\<close> before
  the decision logic satisfies \<open>40 \<le> s < 70\<close>, the tracker holds at least 3 step-up
  timestamps of the user later than \<^verbatim>\<open>tx.timestamp\<close> minus 15 minutes, and \<open>s \<ge> 60\<close>,
  the result has decision BLOCK, reason code \<^verbatim>\<open>ERR_ESCALATION_OVERRIDE\<close>,
  \<^verbatim>\<open>escalation_override\<close> true and \<^verbatim>\<open>final_risk_score\<close> 70.
\<close>

theorem escalation_override_forces_block:
  assumes "account_status profile \<noteq> BLOCKED"
    and "40 \<le> finalScore (fst (SentinelEngine_score this tx profile))"
    and "finalScore (fst (SentinelEngine_score this tx profile)) < 70"
    and "3 \<le> length (filter (\<lambda>t. t > Transaction.timestamp tx - 900000)
                  (stepUps_of (escalationTracker this) (Transaction.user_id tx)))"
    and "60 \<le> finalScore (fst (SentinelEngine_score this tx profile))"
  shows "FinalRiskResult.decision (fst (SentinelEngine_evaluate this tx profile ms)) = BLOCK
       \<and> reason_code (fst (SentinelEngine_evaluate this tx profile ms)) = ERR_ESCALATION_OVERRIDE
       \<and> escalation_override (fst (SentinelEngine_evaluate this tx profile ms))
       \<and> 70 \<le> FinalRiskResult.final_risk_score (fst (SentinelEngine_evaluate this tx profile ms))
       \<and> FinalRiskResult.final_risk_score (fst (SentinelEngine_evaluate this tx profile ms)) = 70"
  using assms
  by (simp add: evaluate_result decide_decision decide_override decide_reasonCode decide_finalScore
      shouldForceBlock_fst score_frame)

theorem escalation_override_forces_block_witness:
  "FinalRiskResult.decision
      (fst (SentinelEngine_evaluate engine_three_stepups tx_spike_vpn_new_device example_profile 1)) = BLOCK
   \<and> reason_code
      (fst (SentinelEngine_evaluate engine_three_stepups tx_spike_vpn_new_device example_profile 1))
        = ERR_ESCALATION_OVERRIDE
   \<and> escalation_override
      (fst (SentinelEngine_evaluate engine_three_stepups tx_spike_vpn_new_device example_profile 1))
   \<and> FinalRiskResult.final_risk_score
      (fst (SentinelEngine_evaluate engine_three_stepups tx_spike_vpn_new_device example_profile 1)) = 70"
proof -
  have "3 \<le> length (filter (\<lambda>t. t > Transaction.timestamp tx_spike_vpn_new_device - 900000)
                  (stepUps_of (escalationTracker engine_three_stepups)
                     (Transaction.user_id tx_spike_vpn_new_device)))"
    by (simp add: example_defs stepUps_of_def SentinelEngine_new_def)
  then show ?thesis
    using escalation_override_forces_block
      [OF example_profile_not_blocked, of engine_three_stepups tx_spike_vpn_new_device 1]
    by (simp add: example_scores)
qed

text \<open>
  C9. For a profile with \<^verbatim>\<open>account_status\<close> BLOCKED, \<^verbatim>\<open>evaluate\<close> returns
  \<^verbatim>\<open>final_risk_score\<close> 100, the six component scores 0, decision BLOCK and reason code
  \<^verbatim>\<open>ERR_BLOCKED_USER\<close>; the engine afterwards differs from the engine before only in
  its latency buffer, so the transaction history is the same and \<^verbatim>\<open>getHistory\<close> returns
  for every user what it returned before.
\<close>

theorem blocked_short_circuit:
  assumes "account_status profile = BLOCKED"
  shows "FinalRiskResult.final_risk_score (fst (SentinelEngine_evaluate this tx profile ms)) = 100
       \<and> component_scores (fst (SentinelEngine_evaluate this tx profile ms))
           = \<lparr> geo_risk = 0, velocity_risk = 0, device_risk = 0, amount_risk = 0,
               network_risk = 0, behavioral_risk = 0 \<rparr>
       \<and> FinalRiskResult.decision (fst (SentinelEngine_evaluate this tx profile ms)) = BLOCK
       \<and> reason_code (fst (SentinelEngine_evaluate this tx profile ms)) = ERR_BLOCKED_USER
       \<and> transactionHistory (snd (SentinelEngine_evaluate this tx profile ms)) = transactionHistory this
       \<and> SentinelEngine_getHistory (snd (SentinelEngine_evaluate this tx profile ms)) u
           = SentinelEngine_getHistory this u
       \<and> snd (SentinelEngine_evaluate this tx profile ms)
           = this \<lparr> latencyBuffer := RollingLatencyBuffer_record (latencyBuffer this) ms \<rparr>"
  using assms
  by (simp add: evaluate_blocked SentinelEngine_buildResult_def SentinelEngine_getHistory_def)

theorem blocked_short_circuit_witness:
  "FinalRiskResult.final_risk_score
      (fst (SentinelEngine_evaluate engine_three_stepups tx_over_max blocked_profile 1)) = 100
   \<and> FinalRiskResult.decision
      (fst (SentinelEngine_evaluate engine_three_stepups tx_over_max blocked_profile 1)) = BLOCK
   \<and> reason_code
      (fst (SentinelEngine_evaluate engine_three_stepups tx_over_max blocked_profile 1)) = ERR_BLOCKED_USER
   \<and> transactionHistory (snd (SentinelEngine_evaluate engine_three_stepups tx_over_max blocked_profile 1))
      = []
   \<and> SentinelEngine_getHistory
        (snd (SentinelEngine_evaluate engine_three_stepups tx_over_max blocked_profile 1)) ''user_123''
      = SentinelEngine_getHistory engine_three_stepups ''user_123''"
proof -
  have "account_status blocked_profile = BLOCKED"
    by (simp add: example_defs)
  from blocked_short_circuit [OF this, of engine_three_stepups tx_over_max 1 "''user_123''"]
  show ?thesis
    by (simp add: engine_three_stepups_def SentinelEngine_new_def SentinelEngine_getHistory_def)
qed

subsection \<open>The amount engine\<close>



subsection \<open>The coordinated-attack detector\<close>





subsection \<open>Order of decision and tracker update\<close>

lemma evaluate_user_id:
  "FinalRiskResult.user_id (fst (SentinelEngine_evaluate this tx profile ms)) = Transaction.user_id tx"
  by (simp add: SentinelEngine_evaluate_def SentinelEngine_buildResult_def Let_def split_def)

lemma evaluate_override_iff:
  assumes "account_status profile \<noteq> BLOCKED"
  shows "escalation_override (fst (SentinelEngine_evaluate this tx profile ms)) \<longleftrightarrow>
     40 \<le> finalScore (fst (SentinelEngine_score this tx profile))
     \<and> finalScore (fst (SentinelEngine_score this tx profile)) < 70
     \<and> 60 \<le> finalScore (fst (SentinelEngine_score this tx profile))
     \<and> 3 \<le> length (filter (\<lambda>t. t > Transaction.timestamp tx - 900000)
                  (stepUps_of (escalationTracker this) (Transaction.user_id tx)))"
  using assms
  by (auto simp add: evaluate_result decide_override shouldForceBlock_fst score_frame)

lemma evaluate_override_pre:
  assumes "escalation_override (fst (SentinelEngine_evaluate this tx profile ms))"
  shows "3 \<le> length (stepUps_of (escalationTracker this) (Transaction.user_id tx))"
proof (cases "account_status profile = BLOCKED")
  case True
  with assms show ?thesis
    by (simp add: evaluate_blocked SentinelEngine_buildResult_def)
next
  case False
  with assms have "3 \<le> length (filter (\<lambda>t. t > Transaction.timestamp tx - 900000)
                  (stepUps_of (escalationTracker this) (Transaction.user_id tx)))"
    by (simp add: evaluate_override_iff)
  also have "\<dots> \<le> length (stepUps_of (escalationTracker this) (Transaction.user_id tx))"
    by (rule length_filter_le)
  finally show ?thesis .
qed

lemma evaluate_stepup_no_override:
  assumes "account_status profile \<noteq> BLOCKED"
    and "FinalRiskResult.decision (fst (SentinelEngine_evaluate this tx profile ms)) = STEP_UP"
  shows "\<not> escalation_override (fst (SentinelEngine_evaluate this tx profile ms))"
  using assms
  by (auto simp add: evaluate_result decide_override decide_decision split: if_splits)

lemma evaluate_tracker_length:
  "length (stepUps_of (escalationTracker (snd (SentinelEngine_evaluate this tx profile ms))) u)
     \<le> length (stepUps_of (escalationTracker this) u)
        + (if FinalRiskResult.user_id (fst (SentinelEngine_evaluate this tx profile ms)) = u
              \<and> FinalRiskResult.decision (fst (SentinelEngine_evaluate this tx profile ms)) = STEP_UP
           then 1 else 0)"
proof (cases "account_status profile = BLOCKED")
  case True
  then show ?thesis by (simp add: evaluate_blocked)
next
  case False
  have "length (filter (\<lambda>t. t > Transaction.timestamp tx - 900000)
                  (stepUps_of (escalationTracker this) u))
          \<le> length (stepUps_of (escalationTracker this) u)"
    by (rule length_filter_le)
  then show ?thesis
    by (simp add: evaluate_tracker [OF False] evaluate_user_id)
qed

text \<open>In a run, an escalation override at position \<open>k\<close> needs three step-ups of the same
  user: held by the tracker at the start or decided earlier in the run.\<close>

lemma run_override_needs_stepups:
  assumes "\<And>u. length (stepUps_of (escalationTracker this) u) \<le> c u"
    and "k < length ins"
    and "escalation_override (fst (SentinelEngine_run this ins) ! k)"
  shows "3 \<le> c (FinalRiskResult.user_id (fst (SentinelEngine_run this ins) ! k))
           + length (filter (\<lambda>r. FinalRiskResult.user_id r
                                    = FinalRiskResult.user_id (fst (SentinelEngine_run this ins) ! k)
                                  \<and> FinalRiskResult.decision r = STEP_UP)
                      (take k (fst (SentinelEngine_run this ins))))"
  using assms
proof (induction ins arbitrary: this c k)
  case Nil
  then show ?case by simp
next
  case (Cons a ins)
  obtain tx profile ms where a: "a = (tx, profile, ms)" by (cases a)
  define r where "r = fst (SentinelEngine_evaluate this tx profile ms)"
  define this1 where "this1 = snd (SentinelEngine_evaluate this tx profile ms)"
  define rs where "rs = fst (SentinelEngine_run this1 ins)"
  have run: "fst (SentinelEngine_run this (a # ins)) = r # rs"
    by (simp add: a r_def this1_def rs_def split_def Let_def)
  show ?case
  proof (cases k)
    case 0
    with Cons.prems(3) run have "escalation_override r" by simp
    then have "3 \<le> length (stepUps_of (escalationTracker this) (Transaction.user_id tx))"
      unfolding r_def by (rule evaluate_override_pre)
    also have "\<dots> \<le> c (Transaction.user_id tx)" by (rule Cons.prems(1))
    finally show ?thesis
      using 0 run by (simp add: r_def evaluate_user_id)
  next
    case (Suc k')
    define c' where "c' u = c u + (if FinalRiskResult.user_id r = u
                                     \<and> FinalRiskResult.decision r = STEP_UP then 1 else 0)" for u
    have inv: "length (stepUps_of (escalationTracker this1) u) \<le> c' u" for u
      using evaluate_tracker_length [of this tx profile ms u] Cons.prems(1) [of u]
      unfolding this1_def c'_def r_def by simp
    have k': "k' < length ins" using Cons.prems(2) Suc by simp
    have ov: "escalation_override (fst (SentinelEngine_run this1 ins) ! k')"
      using Cons.prems(3) run Suc by (simp add: rs_def)
    from Cons.IH [of this1 c' k', OF inv k' ov]
    have "3 \<le> c' (FinalRiskResult.user_id (rs ! k'))
           + length (filter (\<lambda>r. FinalRiskResult.user_id r = FinalRiskResult.user_id (rs ! k')
                                  \<and> FinalRiskResult.decision r = STEP_UP) (take k' rs))"
      by (simp add: rs_def)
    then show ?thesis
      using Suc run by (auto simp add: c'_def split: if_splits)
  qed
qed

text \<open>
  C10, as stated, fails for the last part: the short-circuit for a blocked account returns
  decision BLOCK before the tracker is touched. With three step-ups of the user in the
  tracker, an evaluation against a blocked profile returns BLOCK, the three timestamps are
  still there, and the user's next transaction against an active profile is blocked by the
  escalation override.
\<close>

theorem block_without_clearing_counterexample:
  "FinalRiskResult.decision
      (fst (SentinelEngine_evaluate engine_three_stepups tx_over_max blocked_profile 1)) = BLOCK
   \<and> stepUps_of (escalationTracker
        (snd (SentinelEngine_evaluate engine_three_stepups tx_over_max blocked_profile 1))) ''user_123''
      = [1705312500000, 1705312600000, 1705312700000]
   \<and> escalation_override
        (fst (SentinelEngine_evaluate
                (snd (SentinelEngine_evaluate engine_three_stepups tx_over_max blocked_profile 1))
                tx_spike_vpn_new_device example_profile 1))"
  by (simp add: example_defs engine_defs Let_def stepUps_of_def)

text \<open>
  C10, amended. For an account that is not blocked, the escalation override of a call is
  decided on the tracker as it was before the call: it fires exactly when the value
  \<open>s\<close> of \<^verbatim>\<open>finalScore\<close> before the decision logic satisfies \<open>60 \<le> s < 70\<close> and the
  tracker before the call holds at least 3 step-up timestamps of the user within the last
  15 minutes. A STEP_UP decision comes without override and leaves as the user's list the
  pruned old list followed by \<^verbatim>\<open>tx.timestamp\<close>; a BLOCK decision leaves the user's
  list empty. In a run of a fresh engine, a result with an escalation override has at
  least three earlier results of the same user with decision STEP_UP.
\<close>

theorem tracker_updated_after_decision:
  "(account_status profile \<noteq> BLOCKED \<longrightarrow>
      (escalation_override (fst (SentinelEngine_evaluate this tx profile ms)) \<longleftrightarrow>
         40 \<le> finalScore (fst (SentinelEngine_score this tx profile))
         \<and> finalScore (fst (SentinelEngine_score this tx profile)) < 70
         \<and> 60 \<le> finalScore (fst (SentinelEngine_score this tx profile))
         \<and> 3 \<le> length (filter (\<lambda>t. t > Transaction.timestamp tx - 900000)
                      (stepUps_of (escalationTracker this) (Transaction.user_id tx))))
      \<and> (FinalRiskResult.decision (fst (SentinelEngine_evaluate this tx profile ms)) = STEP_UP \<longrightarrow>
           \<not> escalation_override (fst (SentinelEngine_evaluate this tx profile ms))
           \<and> stepUps_of (escalationTracker (snd (SentinelEngine_evaluate this tx profile ms)))
                (Transaction.user_id tx)
              = filter (\<lambda>t. t > Transaction.timestamp tx - 900000)
                  (stepUps_of (escalationTracker this) (Transaction.user_id tx))
                @ [Transaction.timestamp tx])
      \<and> (FinalRiskResult.decision (fst (SentinelEngine_evaluate this tx profile ms)) = BLOCK \<longrightarrow>
           stepUps_of (escalationTracker (snd (SentinelEngine_evaluate this tx profile ms)))
                (Transaction.user_id tx) = []))
   \<and> (k < length ins \<and> escalation_override (fst (SentinelEngine_run SentinelEngine_new ins) ! k) \<longrightarrow>
        3 \<le> length (filter (\<lambda>r. FinalRiskResult.user_id r
                                    = FinalRiskResult.user_id (fst (SentinelEngine_run SentinelEngine_new ins) ! k)
                                  \<and> FinalRiskResult.decision r = STEP_UP)
                      (take k (fst (SentinelEngine_run SentinelEngine_new ins)))))"
proof (intro conjI impI)
  assume nb: "account_status profile \<noteq> BLOCKED"
  show "escalation_override (fst (SentinelEngine_evaluate this tx profile ms)) \<longleftrightarrow>
         40 \<le> finalScore (fst (SentinelEngine_score this tx profile))
         \<and> finalScore (fst (SentinelEngine_score this tx profile)) < 70
         \<and> 60 \<le> finalScore (fst (SentinelEngine_score this tx profile))
         \<and> 3 \<le> length (filter (\<lambda>t. t > Transaction.timestamp tx - 900000)
                      (stepUps_of (escalationTracker this) (Transaction.user_id tx)))"
    by (rule evaluate_override_iff [OF nb])
next
  assume "account_status profile \<noteq> BLOCKED"
    and "FinalRiskResult.decision (fst (SentinelEngine_evaluate this tx profile ms)) = STEP_UP"
  then show "\<not> escalation_override (fst (SentinelEngine_evaluate this tx profile ms))"
    by (rule evaluate_stepup_no_override)
next
  assume "account_status profile \<noteq> BLOCKED"
    and "FinalRiskResult.decision (fst (SentinelEngine_evaluate this tx profile ms)) = STEP_UP"
  then show "stepUps_of (escalationTracker (snd (SentinelEngine_evaluate this tx profile ms)))
                (Transaction.user_id tx)
              = filter (\<lambda>t. t > Transaction.timestamp tx - 900000)
                  (stepUps_of (escalationTracker this) (Transaction.user_id tx))
                @ [Transaction.timestamp tx]"
    by (simp add: evaluate_tracker)
next
  assume "account_status profile \<noteq> BLOCKED"
    and "FinalRiskResult.decision (fst (SentinelEngine_evaluate this tx profile ms)) = BLOCK"
  then show "stepUps_of (escalationTracker (snd (SentinelEngine_evaluate this tx profile ms)))
                (Transaction.user_id tx) = []"
    by (simp add: evaluate_tracker)
next
  assume a: "k < length ins \<and> escalation_override (fst (SentinelEngine_run SentinelEngine_new ins) ! k)"
  have "length (stepUps_of (escalationTracker SentinelEngine_new) u) \<le> 0" for u
    by (simp add: SentinelEngine_new_def stepUps_of_def)
  from run_override_needs_stepups [of SentinelEngine_new "\<lambda>u. 0" k ins, OF this] a
  show "3 \<le> length (filter (\<lambda>r. FinalRiskResult.user_id r
                                    = FinalRiskResult.user_id (fst (SentinelEngine_run SentinelEngine_new ins) ! k)
                                  \<and> FinalRiskResult.decision r = STEP_UP)
                      (take k (fst (SentinelEngine_run SentinelEngine_new ins))))"
    by simp
qed

text \<open>The run of \<open>four_inputs\<close> on a fresh engine, one call at a time.\<close>

lemma run_Cons:
  "fst (SentinelEngine_run this ((tx, profile, ms) # rest))
     = fst (SentinelEngine_evaluate this tx profile ms)
       # fst (SentinelEngine_run (snd (SentinelEngine_evaluate this tx profile ms)) rest)"
  by (simp add: split_def Let_def)

lemma four_inputs_first:
  "snd (SentinelEngine_evaluate SentinelEngine_new tx_vpn_new_device example_profile 1)
     = \<lparr> coordDetector = [event_of tx_vpn_new_device],
         escalationTracker = [''user_123'' \<mapsto> \<lparr> stepUpTimestamps = [1705312800000] \<rparr>],
         latencyBuffer = [1],
         transactionHistory = [tx_vpn_new_device] \<rparr>"
  "FinalRiskResult.decision
     (fst (SentinelEngine_evaluate SentinelEngine_new tx_vpn_new_device example_profile 1)) = STEP_UP"
  "FinalRiskResult.user_id
     (fst (SentinelEngine_evaluate SentinelEngine_new tx_vpn_new_device example_profile 1)) = ''user_123''"
  by (simp_all add: example_defs engine_defs Let_def)

lemma four_inputs_second:
  "snd (SentinelEngine_evaluate
       \<lparr> coordDetector = [event_of tx_vpn_new_device],
         escalationTracker = [''user_123'' \<mapsto> \<lparr> stepUpTimestamps = [1705312800000] \<rparr>],
         latencyBuffer = [1],
         transactionHistory = [tx_vpn_new_device] \<rparr>
       tx_vpn_new_device example_profile 1)
     = \<lparr> coordDetector = [event_of tx_vpn_new_device, event_of tx_vpn_new_device],
         escalationTracker = [''user_123'' \<mapsto>
            \<lparr> stepUpTimestamps = [1705312800000, 1705312800000] \<rparr>],
         latencyBuffer = [1, 1],
         transactionHistory = [tx_vpn_new_device, tx_vpn_new_device] \<rparr>"
  "fst (SentinelEngine_evaluate
       \<lparr> coordDetector = [event_of tx_vpn_new_device],
         escalationTracker = [''user_123'' \<mapsto> \<lparr> stepUpTimestamps = [1705312800000] \<rparr>],
         latencyBuffer = [1],
         transactionHistory = [tx_vpn_new_device] \<rparr>
       tx_vpn_new_device example_profile 1)
     = fst (SentinelEngine_evaluate SentinelEngine_new tx_vpn_new_device example_profile 1)"
  by (simp_all add: example_defs engine_defs Let_def)

lemma four_inputs_third:
  "snd (SentinelEngine_evaluate
       \<lparr> coordDetector = [event_of tx_vpn_new_device, event_of tx_vpn_new_device],
         escalationTracker = [''user_123'' \<mapsto>
            \<lparr> stepUpTimestamps = [1705312800000, 1705312800000] \<rparr>],
         latencyBuffer = [1, 1],
         transactionHistory = [tx_vpn_new_device, tx_vpn_new_device] \<rparr>
       tx_vpn_new_device example_profile 1)
     = \<lparr> coordDetector = [event_of tx_vpn_new_device, event_of tx_vpn_new_device,
                           event_of tx_vpn_new_device],
         escalationTracker = [''user_123'' \<mapsto>
            \<lparr> stepUpTimestamps = [1705312800000, 1705312800000, 1705312800000] \<rparr>],
         latencyBuffer = [1, 1, 1],
         transactionHistory = [tx_vpn_new_device, tx_vpn_new_device, tx_vpn_new_device] \<rparr>"
  "fst (SentinelEngine_evaluate
       \<lparr> coordDetector = [event_of tx_vpn_new_device, event_of tx_vpn_new_device],
         escalationTracker = [''user_123'' \<mapsto>
            \<lparr> stepUpTimestamps = [1705312800000, 1705312800000] \<rparr>],
         latencyBuffer = [1, 1],
         transactionHistory = [tx_vpn_new_device, tx_vpn_new_device] \<rparr>
       tx_vpn_new_device example_profile 1)
     = fst (SentinelEngine_evaluate SentinelEngine_new tx_vpn_new_device example_profile 1)"
  by (simp_all add: example_defs engine_defs Let_def)

lemma four_inputs_fourth:
  "escalation_override (fst (SentinelEngine_evaluate
       \<lparr> coordDetector = [event_of tx_vpn_new_device, event_of tx_vpn_new_device,
                           event_of tx_vpn_new_device],
         escalationTracker = [''user_123'' \<mapsto>
            \<lparr> stepUpTimestamps = [1705312800000, 1705312800000, 1705312800000] \<rparr>],
         latencyBuffer = [1, 1, 1],
         transactionHistory = [tx_vpn_new_device, tx_vpn_new_device, tx_vpn_new_device] \<rparr>
       tx_spike_vpn_new_device example_profile 1))"
  by (simp add: example_defs engine_defs Let_def)

lemma four_inputs_results:
  "\<exists>r4. fst (SentinelEngine_run SentinelEngine_new four_inputs)
     = [fst (SentinelEngine_evaluate SentinelEngine_new tx_vpn_new_device example_profile 1),
        fst (SentinelEngine_evaluate SentinelEngine_new tx_vpn_new_device example_profile 1),
        fst (SentinelEngine_evaluate SentinelEngine_new tx_vpn_new_device example_profile 1),
        r4] \<and> escalation_override r4"
  unfolding four_inputs_def run_Cons four_inputs_first(1) four_inputs_second four_inputs_third
  by (simp add: four_inputs_fourth)

lemma four_inputs_override:
  "escalation_override (fst (SentinelEngine_run SentinelEngine_new four_inputs) ! 3)"
  using four_inputs_results by auto

theorem tracker_updated_after_decision_witness:
  "escalation_override (fst (SentinelEngine_run SentinelEngine_new four_inputs) ! 3)
   \<and> 3 \<le> length (filter (\<lambda>r. FinalRiskResult.user_id r
                                 = FinalRiskResult.user_id (fst (SentinelEngine_run SentinelEngine_new four_inputs) ! 3)
                               \<and> FinalRiskResult.decision r = STEP_UP)
                   (take 3 (fst (SentinelEngine_run SentinelEngine_new four_inputs))))
   \<and> FinalRiskResult.decision
        (fst (SentinelEngine_evaluate SentinelEngine_new tx_vpn_new_device example_profile 1)) = STEP_UP
   \<and> stepUps_of (escalationTracker
        (snd (SentinelEngine_evaluate SentinelEngine_new tx_vpn_new_device example_profile 1)))
        (Transaction.user_id tx_vpn_new_device) = [1705312800000]
   \<and> FinalRiskResult.decision
        (fst (SentinelEngine_evaluate engine_three_stepups tx_over_max example_profile 1)) = BLOCK
   \<and> stepUps_of (escalationTracker
        (snd (SentinelEngine_evaluate engine_three_stepups tx_over_max example_profile 1)))
        (Transaction.user_id tx_over_max) = []"
proof -
  have len: "(3::nat) < length four_inputs"
    by (simp add: four_inputs_def)
  have d: "FinalRiskResult.decision
        (fst (SentinelEngine_evaluate engine_three_stepups tx_over_max example_profile 1)) = BLOCK"
    by (simp add: example_defs engine_defs Let_def)
  have t: "filter (\<lambda>t. t > Transaction.timestamp tx_vpn_new_device - 900000)
             (stepUps_of (escalationTracker SentinelEngine_new) (Transaction.user_id tx_vpn_new_device))
           @ [Transaction.timestamp tx_vpn_new_device] = [1705312800000]"
    by (simp add: example_defs SentinelEngine_new_def stepUps_of_def)
  show ?thesis
    using tracker_updated_after_decision
        [of example_profile SentinelEngine_new tx_vpn_new_device 1 3 four_inputs]
      tracker_updated_after_decision
        [of example_profile engine_three_stepups tx_over_max 1 3 four_inputs]
      example_profile_not_blocked four_inputs_override len d t four_inputs_first(2)
    by simp
qed

subsection \<open>The earlier revision\<close>

text \<open>The decision thresholds of the earlier revision are 30 and 60, so scores from 30 to
  39 and from 60 to 69 decide differently; its amount engine adds up all tiers that
  match.\<close>

lemma legacy_decision_differs:
  "legacy_decision 35 = STEP_UP" "legacy_decision 65 = BLOCK"
  "legacy_decision 40 = STEP_UP" "legacy_decision 70 = BLOCK"
  by (simp_all add: legacy_decision_def)

lemma legacy_amount_differs:
  "RiskResult.score (legacy_AmountRiskEngine_evaluate (example_tx \<lparr> Transaction.amount := 100001 \<rparr>)
      example_profile) = 170"
  "RiskResult.score (AmountRiskEngine_evaluate (example_tx \<lparr> Transaction.amount := 100001 \<rparr>)
      example_profile) = 75"
  by (simp_all add: legacy_AmountRiskEngine_evaluate_def AmountRiskEngine_evaluate_def Let_def
      clamp_def example_tx_def example_profile_def)

end
